theory Spec2Isabelle
  imports Complex_Main "HOL-Library.AList"
begin

section \<open>Python values and exceptions\<close>

text \<open>
  The module is a thin Python layer over the vendor library \<^verbatim>\<open>DWDataReaderLib\<close>.
  Every Python exception the modelled code can raise is a constructor of \<open>exn\<close>; a
  call that raises returns \<open>Inl\<close> of it. \<open>RuntimeError status text\<close> stands for
  \<^verbatim>\<open>RuntimeError(f"Error {status}: {text}")\<close>. Doubles are modelled as reals
  (no NaN, no infinities, no rounding); C integers as unbounded integers.
\<close>

datatype exn =
    RuntimeError int string
  | IndexError
  | KeyError
  | ValueError
  | AttributeError
  | OverflowError
  | ParseError
  | TypeError

section \<open>DWMeasurementInfo\<close>

text \<open>
  The ctypes structure with its four double fields. The two private fields
  \<^verbatim>\<open>_start_measure_time\<close> and \<^verbatim>\<open>_start_store_time\<close> are days since
  1899-12-30; an Isabelle name cannot start with an underscore, so they carry the prefix
  \<open>raw\<close>.
\<close>

record DWMeasurementInfo =
  sample_rate :: real
  raw_start_measure_time :: real
  raw_start_store_time :: real
  duration :: real

text \<open>
  \<^verbatim>\<open>timedelta(days)\<close> keeps a whole number of microseconds, rounding halves to the even
  neighbour, and raises \<^verbatim>\<open>OverflowError\<close> beyond 999999999 days. A \<^verbatim>\<open>datetime\<close> is
  modelled as the number of microseconds since the epoch \<^verbatim>\<open>datetime(1899, 12, 30)\<close>,
  whose proleptic Gregorian ordinal is 693594; the type ends at ordinal 3652059
  (9999-12-31) and starts at ordinal 1.
\<close>

definition round_half_even :: "real \<Rightarrow> int" where
  "round_half_even x =
     (let f = \<lfloor>x\<rfloor>; r = x - of_int f
      in if r < 1/2 then f else if 1/2 < r then f + 1 else if even f then f else f + 1)"

definition us_per_day :: int where
  "us_per_day = 86400000000"

definition timedelta :: "real \<Rightarrow> exn + int" where
  "timedelta days =
     (let us = round_half_even (days * of_int us_per_day)
      in if \<bar>us div us_per_day\<bar> > 999999999 then Inl OverflowError else Inr us)"

definition epoch_ordinal :: int where
  "epoch_ordinal = 693594"

definition epoch_plus :: "exn + int \<Rightarrow> exn + int" where
  "epoch_plus d =
     (case d of
        Inl e \<Rightarrow> Inl e
      | Inr us \<Rightarrow>
          (let day = epoch_ordinal + us div us_per_day
           in if 1 \<le> day \<and> day \<le> 3652059 then Inr us else Inl OverflowError))"

definition start_store_time :: "DWMeasurementInfo \<Rightarrow> exn + int" where
  "start_store_time self = epoch_plus (timedelta (raw_start_store_time self))"

definition start_measure_time :: "DWMeasurementInfo \<Rightarrow> exn + int" where
  "start_measure_time self = epoch_plus (timedelta (raw_start_store_time self))"

section \<open>Timestamp de-duplication\<close>

text \<open>
  \<^verbatim>\<open>time, ix = np.unique(time, return_index=True)\<close>: numpy returns the distinct values
  in ascending order and, for each, the index of its first occurrence in the argument.
\<close>

fun first_index :: "'a list \<Rightarrow> 'a \<Rightarrow> nat" where
  "first_index [] v = 0"
| "first_index (x # xs) v = (if x = v then 0 else Suc (first_index xs v))"

definition np_unique :: "real list \<Rightarrow> real list \<times> nat list" where
  "np_unique ts = (let u = sort (remdups ts) in (u, map (first_index ts) u))"

section \<open>The vendor library as an oracle\<close>

text \<open>
  \<^verbatim>\<open>class DWStatus(IntEnum)\<close>: the status codes of the library, with their values.
\<close>

datatype DWStatus =
    DWSTAT_OK
  | DWSTAT_ERROR
  | DWSTAT_ERROR_FILE_CANNOT_OPEN
  | DWSTAT_ERROR_FILE_ALREADY_IN_USE
  | DWSTAT_ERROR_FILE_CORRUPT
  | DWSTAT_ERROR_NO_MEMORY_ALLOC
  | DWSTAT_ERROR_CREATE_DEST_FILE
  | DWSTAT_ERROR_EXTRACTING_FILE
  | DWSTAT_ERROR_CANNOT_OPEN_EXTRACTED_FILE
  | DWSTAT_ERROR_INVALID_IB_LEVEL
  | DWSTAT_ERROR_CAN_NOT_SUPPORTED
  | DWSTAT_ERROR_INVALID_READER
  | DWSTAT_ERROR_INVALID_INDEX
  | DWSTAT_ERROR_INSUFFICENT_BUFFER

fun status_value :: "DWStatus \<Rightarrow> int" where
  "status_value DWSTAT_OK = 0"
| "status_value DWSTAT_ERROR = 1"
| "status_value DWSTAT_ERROR_FILE_CANNOT_OPEN = 2"
| "status_value DWSTAT_ERROR_FILE_ALREADY_IN_USE = 3"
| "status_value DWSTAT_ERROR_FILE_CORRUPT = 4"
| "status_value DWSTAT_ERROR_NO_MEMORY_ALLOC = 5"
| "status_value DWSTAT_ERROR_CREATE_DEST_FILE = 6"
| "status_value DWSTAT_ERROR_EXTRACTING_FILE = 7"
| "status_value DWSTAT_ERROR_CANNOT_OPEN_EXTRACTED_FILE = 8"
| "status_value DWSTAT_ERROR_INVALID_IB_LEVEL = 9"
| "status_value DWSTAT_ERROR_CAN_NOT_SUPPORTED = 10"
| "status_value DWSTAT_ERROR_INVALID_READER = 11"
| "status_value DWSTAT_ERROR_INVALID_INDEX = 12"
| "status_value DWSTAT_ERROR_INSUFFICENT_BUFFER = 13"

text \<open>\<^verbatim>\<open>class DWChannelProps(IntEnum)\<close>: the property codes of a channel.\<close>

datatype DWChannelProps =
    DW_DATA_TYPE
  | DW_DATA_TYPE_LEN_BYTES
  | DW_CH_INDEX
  | DW_CH_INDEX_LEN
  | DW_CH_TYPE
  | DW_CH_SCALE
  | DW_CH_OFFSET
  | DW_CH_XML
  | DW_CH_XML_LEN
  | DW_CH_XMLPROPS
  | DW_CH_XMLPROPS_LEN
  | DW_CH_CUSTOMPROPS
  | DW_CH_CUSTOMPROPS_COUNT
  | DW_CH_LONGNAME
  | DW_CH_LONGNAME_LEN

fun prop_value :: "DWChannelProps \<Rightarrow> int" where
  "prop_value DW_DATA_TYPE = 0"
| "prop_value DW_DATA_TYPE_LEN_BYTES = 1"
| "prop_value DW_CH_INDEX = 2"
| "prop_value DW_CH_INDEX_LEN = 3"
| "prop_value DW_CH_TYPE = 4"
| "prop_value DW_CH_SCALE = 5"
| "prop_value DW_CH_OFFSET = 6"
| "prop_value DW_CH_XML = 7"
| "prop_value DW_CH_XML_LEN = 8"
| "prop_value DW_CH_XMLPROPS = 9"
| "prop_value DW_CH_XMLPROPS_LEN = 10"
| "prop_value DW_CH_CUSTOMPROPS = 11"
| "prop_value DW_CH_CUSTOMPROPS_COUNT = 12"
| "prop_value DW_CH_LONGNAME = 13"
| "prop_value DW_CH_LONGNAME_LEN = 14"

text \<open>
  The ctypes structures. Text fields are modelled by their decoded value
  (\<^verbatim>\<open>decode_bytes\<close>: the bytes up to the first NUL, as text). A \<^verbatim>\<open>DWChannel\<close> is the
  channel structure plus the reader handle it was built with: \<open>None\<close> is Python's
  \<^verbatim>\<open>None\<close>, \<open>Some p\<close> a \<^verbatim>\<open>c_void_p\<close> holding the address \<open>p\<close>.
\<close>

record DWChannelStruct =
  index :: int
  name :: string
  unit :: string
  description :: string
  color :: nat
  array_size :: int
  data_type :: int

record DWChannel = DWChannelStruct +
  reader_handle :: "nat option"

record DWArrayInfoStruct =
  axis_index :: int
  axis_raw_name :: string
  axis_raw_unit :: string
  axis_size :: int

record DWArrayInfo = DWArrayInfoStruct +
  axis_channel :: DWChannel

record DWReducedValue =
  rv_time_stamp :: real
  rv_ave :: real
  rv_min :: real
  rv_max :: real
  rv_rms :: real

text \<open>
  One entry of the call log per call into the library, with the arguments the wrapper
  passes by value: the reader address (0 for a NULL pointer), indices, lengths.
\<close>

datatype dll_call =
    CreateReader
  | OpenDataFile nat string
  | GetMeasurementInfo nat
  | GetChannelListCount nat
  | GetChannelList nat
  | CloseDataFile nat
  | DestroyReader nat
  | GetHeaderEntryCount nat
  | GetHeaderEntryTextF nat int int
  | GetHeaderEntryNameF nat int int
  | GetScaledSamplesCount nat int
  | GetScaledSamples nat int int int
  | GetReducedValuesCount nat int
  | GetReducedValues nat int int int
  | GetChannelProps nat int int int
  | GetArrayInfoCount nat int
  | GetArrayInfoList nat int
  | GetLastStatus int

text \<open>
  The library is closed source. It is a parameter of the model: a record with one
  function per entry point, which answers a call from the log of the calls made before it
  and the call's arguments, with the returned status first and then the values the call
  leaves in its output parameters. Any deterministic library is such a record.
  \<^verbatim>\<open>DWIGetChannelProps\<close> writes through an untyped pointer; it has one field per type
  the wrapper reads back.
\<close>

record dll =
  DWICreateReader :: "dll_call list \<Rightarrow> int \<times> nat"
  DWIOpenDataFile :: "dll_call list \<Rightarrow> nat \<Rightarrow> string \<Rightarrow> int \<times> DWMeasurementInfo"
  DWIGetMeasurementInfo :: "dll_call list \<Rightarrow> nat \<Rightarrow> int \<times> DWMeasurementInfo"
  DWIGetChannelListCount :: "dll_call list \<Rightarrow> nat \<Rightarrow> int \<times> int"
  DWIGetChannelList :: "dll_call list \<Rightarrow> nat \<Rightarrow> int \<times> DWChannelStruct list"
  DWIGetHeaderEntryCount :: "dll_call list \<Rightarrow> nat \<Rightarrow> int \<times> int"
  DWIGetHeaderEntryTextF :: "dll_call list \<Rightarrow> nat \<Rightarrow> int \<Rightarrow> int \<Rightarrow> int \<times> string"
  DWIGetHeaderEntryNameF :: "dll_call list \<Rightarrow> nat \<Rightarrow> int \<Rightarrow> int \<Rightarrow> int \<times> string"
  DWIGetScaledSamplesCount :: "dll_call list \<Rightarrow> nat \<Rightarrow> int \<Rightarrow> int \<times> int"
  DWIGetScaledSamples ::
    "dll_call list \<Rightarrow> nat \<Rightarrow> int \<Rightarrow> int \<Rightarrow> int \<Rightarrow> int \<times> real list \<times> real list"
  DWIGetReducedValuesCount :: "dll_call list \<Rightarrow> nat \<Rightarrow> int \<Rightarrow> int \<times> int \<times> real"
  DWIGetReducedValues ::
    "dll_call list \<Rightarrow> nat \<Rightarrow> int \<Rightarrow> int \<Rightarrow> int \<Rightarrow> int \<times> DWReducedValue list"
  DWIGetChannelProps_int :: "dll_call list \<Rightarrow> nat \<Rightarrow> int \<Rightarrow> int \<Rightarrow> int \<times> int"
  DWIGetChannelProps_double :: "dll_call list \<Rightarrow> nat \<Rightarrow> int \<Rightarrow> int \<Rightarrow> int \<times> real"
  DWIGetChannelProps_str :: "dll_call list \<Rightarrow> nat \<Rightarrow> int \<Rightarrow> int \<Rightarrow> int \<Rightarrow> int \<times> string"
  DWIGetArrayInfoCount :: "dll_call list \<Rightarrow> nat \<Rightarrow> int \<Rightarrow> int \<times> int"
  DWIGetArrayInfoList :: "dll_call list \<Rightarrow> nat \<Rightarrow> int \<Rightarrow> int \<times> DWArrayInfoStruct list"
  DWGetLastStatus :: "dll_call list \<Rightarrow> int \<Rightarrow> int \<times> string \<times> int"

text \<open>
  A Python call runs from a call log to an outcome and the longer log. It raises
  (\<open>Inl\<close>), returns (\<open>Inr\<close>), or does not come back at all (\<open>None\<close>).
\<close>

type_synonym 'a py = "dll_call list \<Rightarrow> ((exn + 'a) \<times> dll_call list) option"

definition py_return :: "'a \<Rightarrow> 'a py" where
  "py_return x tr = Some (Inr x, tr)"

definition py_raise :: "exn \<Rightarrow> 'a py" where
  "py_raise e tr = Some (Inl e, tr)"

definition py_bind :: "'a py \<Rightarrow> ('a \<Rightarrow> 'b py) \<Rightarrow> 'b py" where
  "py_bind m k tr =
     (case m tr of
        None \<Rightarrow> None
      | Some (Inl e, tr') \<Rightarrow> Some (Inl e, tr')
      | Some (Inr x, tr') \<Rightarrow> k x tr')"

text \<open>ctypes passes Python's \<^verbatim>\<open>None\<close> as a NULL pointer.\<close>

definition as_pointer :: "nat option \<Rightarrow> nat" where
  "as_pointer h = (case h of None \<Rightarrow> 0 | Some p \<Rightarrow> p)"

text \<open>
  The library writes through the pointer of a numpy or ctypes array: what it writes
  replaces the front of the array, and nothing past the array's end is seen through it.
\<close>

definition overwrite :: "'a list \<Rightarrow> 'a list \<Rightarrow> 'a list" where
  "overwrite buf ws = take (length buf) ws @ drop (length ws) buf"

definition zeros :: "int \<Rightarrow> real list" where
  "zeros n = replicate (nat n) 0"

section \<open>check\_lib\_status\<close>

text \<open>
  The loop of \<^verbatim>\<open>check_lib_status\<close>: ask for the last status text with a buffer of
  \<open>err_msg_len\<close> bytes; while the answer is \<^verbatim>\<open>DWSTAT_ERROR_NO_MEMORY_ALLOC\<close>, make a
  buffer of the length the library wrote into \<open>err_msg_len\<close> (a negative length makes
  \<^verbatim>\<open>create_string_buffer\<close> raise \<^verbatim>\<open>ValueError\<close>) and ask again. The loop has no
  bound, so it is a partial function: \<open>None\<close> when it never ends.
\<close>

partial_function (option) last_status_loop ::
  "dll \<Rightarrow> int \<Rightarrow> dll_call list \<Rightarrow> ((exn + string) \<times> dll_call list) option" where
  "last_status_loop L err_msg_len tr =
     (case DWGetLastStatus L tr err_msg_len of
        (ret, err_msg, new_len) \<Rightarrow>
          if ret = status_value DWSTAT_ERROR_NO_MEMORY_ALLOC
          then (if new_len < 0 then Some (Inl ValueError, tr @ [GetLastStatus err_msg_len])
                else last_status_loop L new_len (tr @ [GetLastStatus err_msg_len]))
          else Some (Inr err_msg, tr @ [GetLastStatus err_msg_len]))"

definition check_lib_status :: "dll \<Rightarrow> int \<Rightarrow> unit py" where
  "check_lib_status L status tr =
     (if status = status_value DWSTAT_OK then Some (Inr (), tr)
      else (case last_status_loop L 1024 tr of
              None \<Rightarrow> None
            | Some (Inl e, tr') \<Rightarrow> Some (Inl e, tr')
            | Some (Inr err_msg, tr') \<Rightarrow> Some (Inl (RuntimeError status err_msg), tr')))"

section \<open>DWChannel\<close>

definition DWChannel_number_of_samples :: "dll \<Rightarrow> DWChannel \<Rightarrow> int py" where
  "DWChannel_number_of_samples L self tr =
     (let h = as_pointer (reader_handle self);
          (status, count) = DWIGetScaledSamplesCount L tr h (index self)
      in py_bind (check_lib_status L status) (\<lambda>_. py_return count)
           (tr @ [GetScaledSamplesCount h (index self)]))"

text \<open>
  \<^verbatim>\<open>_chan_prop_int\<close> passes one \<^verbatim>\<open>c_int\<close>, initialised to its own size 4, as buffer and
  as length; \<^verbatim>\<open>_chan_prop_double\<close> passes a double and the length 8;
  \<^verbatim>\<open>_chan_prop_str\<close> first reads the length property, then fetches into a buffer of that
  many bytes, whose value cannot be longer than the buffer.
\<close>

definition DWChannel_chan_prop_int :: "dll \<Rightarrow> DWChannel \<Rightarrow> DWChannelProps \<Rightarrow> int py" where
  "DWChannel_chan_prop_int L self chan_prop tr =
     (let h = as_pointer (reader_handle self);
          (status, count) = DWIGetChannelProps_int L tr h (index self) (prop_value chan_prop)
      in py_bind (check_lib_status L status) (\<lambda>_. py_return count)
           (tr @ [GetChannelProps h (index self) (prop_value chan_prop) 4]))"

definition DWChannel_chan_prop_double :: "dll \<Rightarrow> DWChannel \<Rightarrow> DWChannelProps \<Rightarrow> real py" where
  "DWChannel_chan_prop_double L self chan_prop tr =
     (let h = as_pointer (reader_handle self);
          (status, p_buff) = DWIGetChannelProps_double L tr h (index self) (prop_value chan_prop)
      in py_bind (check_lib_status L status) (\<lambda>_. py_return p_buff)
           (tr @ [GetChannelProps h (index self) (prop_value chan_prop) 8]))"

definition DWChannel_chan_prop_str ::
  "dll \<Rightarrow> DWChannel \<Rightarrow> DWChannelProps \<Rightarrow> DWChannelProps \<Rightarrow> string py" where
  "DWChannel_chan_prop_str L self chan_prop chan_prop_len =
     py_bind (DWChannel_chan_prop_int L self chan_prop_len) (\<lambda>len_str tr.
       if len_str < 0 then Some (Inl ValueError, tr)
       else
         (let h = as_pointer (reader_handle self);
              (status, p_buff) =
                 DWIGetChannelProps_str L tr h (index self) (prop_value chan_prop) len_str
          in py_bind (check_lib_status L status) (\<lambda>_. py_return (take (nat len_str) p_buff))
               (tr @ [GetChannelProps h (index self) (prop_value chan_prop) len_str])))"

definition DWChannel_channel_type :: "dll \<Rightarrow> DWChannel \<Rightarrow> int py" where
  "DWChannel_channel_type L self = DWChannel_chan_prop_int L self DW_CH_TYPE"

definition DWChannel_channel_index :: "dll \<Rightarrow> DWChannel \<Rightarrow> string py" where
  "DWChannel_channel_index L self = DWChannel_chan_prop_str L self DW_CH_INDEX DW_CH_INDEX_LEN"

definition DWChannel_channel_xml :: "dll \<Rightarrow> DWChannel \<Rightarrow> string py" where
  "DWChannel_channel_xml L self = DWChannel_chan_prop_str L self DW_CH_XML DW_CH_XML_LEN"

definition DWChannel_long_name :: "dll \<Rightarrow> DWChannel \<Rightarrow> string py" where
  "DWChannel_long_name L self = DWChannel_chan_prop_str L self DW_CH_LONGNAME DW_CH_LONGNAME_LEN"

definition DWChannel_scale :: "dll \<Rightarrow> DWChannel \<Rightarrow> real py" where
  "DWChannel_scale L self = DWChannel_chan_prop_double L self DW_CH_SCALE"

definition DWChannel_offset :: "dll \<Rightarrow> DWChannel \<Rightarrow> real py" where
  "DWChannel_offset L self = DWChannel_chan_prop_double L self DW_CH_OFFSET"

text \<open>
  \<^verbatim>\<open>array_info\<close>: no axes and no call for \<^verbatim>\<open>array_size < 2\<close>; otherwise the axis count,
  an array of that many zeroed structures for the library to fill, and one
  \<^verbatim>\<open>DWArrayInfo\<close> per structure, each holding the channel.
\<close>

definition zero_axis :: DWArrayInfoStruct where
  "zero_axis = \<lparr>axis_index = 0, axis_raw_name = [], axis_raw_unit = [], axis_size = 0\<rparr>"

definition DWChannel_array_info :: "dll \<Rightarrow> DWChannel \<Rightarrow> DWArrayInfo list py" where
  "DWChannel_array_info L self tr =
     (if array_size self < 2 then Some (Inr [], tr)
      else
        (let h = as_pointer (reader_handle self);
             (status, narray_infos) = DWIGetArrayInfoCount L tr h (index self)
         in py_bind (check_lib_status L status) (\<lambda>_ tr1.
              if narray_infos < 1 then Some (Inl IndexError, tr1)
              else
                (let (status, written) = DWIGetArrayInfoList L tr1 h (index self);
                     axes = overwrite (replicate (nat narray_infos) zero_axis) written
                 in py_bind (check_lib_status L status) (\<lambda>_.
                      py_return (map (\<lambda>ax. DWArrayInfoStruct.extend ax \<lparr>axis_channel = self\<rparr>) axes))
                      (tr1 @ [GetArrayInfoList h (index self)])))
              (tr @ [GetArrayInfoCount h (index self)])))"

text \<open>
  \<^verbatim>\<open>scaled\<close>: the range check on \<^verbatim>\<open>array_index\<close>, the sample count, two zeroed arrays
  (\<^verbatim>\<open>np.zeros\<close> raises \<^verbatim>\<open>ValueError\<close> on a negative length), the sample count once
  more as the length argument, and one fetch from offset 0. It returns \<^verbatim>\<open>(time, data)\<close>.
\<close>

definition DWChannel_scaled :: "dll \<Rightarrow> DWChannel \<Rightarrow> int \<Rightarrow> (real list \<times> real list) py" where
  "DWChannel_scaled L self array_index tr =
     (if \<not> (0 \<le> array_index \<and> array_index < array_size self) then Some (Inl IndexError, tr)
      else
        py_bind (DWChannel_number_of_samples L self) (\<lambda>count tr1.
          if count * array_size self < 0 \<or> count < 0 then Some (Inl ValueError, tr1)
          else
            (let data = zeros (count * array_size self);
                 time = zeros count
             in py_bind (DWChannel_number_of_samples L self) (\<lambda>count2 tr2.
                  (let h = as_pointer (reader_handle self);
                       (status, ds, ts) = DWIGetScaledSamples L tr2 h (index self) 0 count2
                   in py_bind (check_lib_status L status) (\<lambda>_.
                        py_return (overwrite time ts, overwrite data ds))
                        (tr2 @ [GetScaledSamples h (index self) 0 count2]))) tr1)) tr)"

text \<open>
  \<^verbatim>\<open>reduced\<close>: the count of reduced blocks, an \<^verbatim>\<open>np.empty\<close> array of that many records
  (its cells are taken as zero until written), and one fetch from position 0.
\<close>

definition zero_reduced :: DWReducedValue where
  "zero_reduced = \<lparr>rv_time_stamp = 0, rv_ave = 0, rv_min = 0, rv_max = 0, rv_rms = 0\<rparr>"

definition DWChannel_reduced :: "dll \<Rightarrow> DWChannel \<Rightarrow> DWReducedValue list py" where
  "DWChannel_reduced L self tr =
     (let h = as_pointer (reader_handle self);
          (status, count, block_size) = DWIGetReducedValuesCount L tr h (index self)
      in py_bind (check_lib_status L status) (\<lambda>_ tr1.
           if count < 0 then Some (Inl ValueError, tr1)
           else
             (let (status, written) = DWIGetReducedValues L tr1 h (index self) 0 count;
                  data = overwrite (replicate (nat count) zero_reduced) written
              in py_bind (check_lib_status L status) (\<lambda>_. py_return data)
                   (tr1 @ [GetReducedValues h (index self) 0 count])))
           (tr @ [GetReducedValuesCount h (index self)]))"

subsection \<open>series\_generator\<close>

text \<open>
  A \<^verbatim>\<open>pandas.Series\<close> as its values, its index and its name.
\<close>

record Series =
  series_data :: "real list"
  series_index :: "real list"
  series_name :: string

text \<open>
  \<^verbatim>\<open>data.reshape(-1, array_size)[ix, array_index]\<close>: the rows \<open>ix\<close> of the column
  \<open>array_index\<close>. numpy counts a negative column from the end and raises
  \<^verbatim>\<open>IndexError\<close> outside \<open>[-array_size, array_size)\<close>; the reshape raises
  \<^verbatim>\<open>ValueError\<close> when there is no positive number of columns.
\<close>

definition select_column :: "real list \<Rightarrow> int \<Rightarrow> nat list \<Rightarrow> int \<Rightarrow> exn + real list" where
  "select_column data asz ix array_index =
     (if asz \<le> 0 then Inl ValueError
      else if \<not> (- asz \<le> array_index \<and> array_index < asz) then Inl IndexError
      else
        (let col = nat (if array_index < 0 then asz + array_index else array_index)
         in Inr (map (\<lambda>i. data ! (i * nat asz + col)) ix)))"

text \<open>\<^verbatim>\<open>range(0, count, chunk_size)\<close> for a positive step.\<close>

definition chunk_starts :: "int \<Rightarrow> int \<Rightarrow> int list" where
  "chunk_starts count chunk_size =
     map (\<lambda>k. int k * chunk_size) [0 ..< nat ((count + chunk_size - 1) div chunk_size)]"

text \<open>
  The body of the \<^verbatim>\<open>for\<close> loop, over the starts still to come. The variables
  \<^verbatim>\<open>chunk_size\<close>, \<^verbatim>\<open>data\<close> and \<^verbatim>\<open>time\<close> live across iterations: the loop shrinks
  \<^verbatim>\<open>chunk_size\<close>, the library writes into \<^verbatim>\<open>data\<close> and \<^verbatim>\<open>time\<close>, and the statement
  \<^verbatim>\<open>time, ix = np.unique(time[:chunk_size], return_index=True)\<close> rebinds \<^verbatim>\<open>time\<close> to the
  array of distinct values, which is the array the next fetch writes into. The generator's
  outcome is the list of the series it yields and the exception that ends it, if any.
\<close>

fun series_generator_loop ::
  "dll \<Rightarrow> DWChannel \<Rightarrow> int \<Rightarrow> int \<Rightarrow> int list \<Rightarrow> int \<Rightarrow> real list \<Rightarrow> real list \<Rightarrow> Series list
     \<Rightarrow> dll_call list \<Rightarrow> ((Series list \<times> exn option) \<times> dll_call list) option" where
  "series_generator_loop L self array_index count [] chunk_size data time yielded tr =
     Some ((yielded, None), tr)"
| "series_generator_loop L self array_index count (chunk # rest) chunk_size data time yielded tr =
     (let chunk_size = min chunk_size (count - chunk);
          h = as_pointer (reader_handle self);
          (status, ds, ts) = DWIGetScaledSamples L tr h (index self) chunk chunk_size;
          data = overwrite data ds;
          time = overwrite time ts
      in case check_lib_status L status (tr @ [GetScaledSamples h (index self) chunk chunk_size]) of
           None \<Rightarrow> None
         | Some (Inl e, tr') \<Rightarrow> Some ((yielded, Some e), tr')
         | Some (Inr _, tr') \<Rightarrow>
             (let (time, ix) = np_unique (take (nat chunk_size) time)
              in case select_column data (array_size self) ix array_index of
                   Inl e \<Rightarrow> Some ((yielded, Some e), tr')
                 | Inr vals \<Rightarrow>
                     series_generator_loop L self array_index count rest chunk_size data time
                       (yielded @ [\<lparr>series_data = vals, series_index = time,
                                    series_name = name self\<rparr>]) tr'))"

definition DWChannel_series_generator ::
  "dll \<Rightarrow> DWChannel \<Rightarrow> int \<Rightarrow> int \<Rightarrow> dll_call list
     \<Rightarrow> ((Series list \<times> exn option) \<times> dll_call list) option" where
  "DWChannel_series_generator L self chunk_size array_index tr =
     (case DWChannel_number_of_samples L self tr of
        None \<Rightarrow> None
      | Some (Inl e, tr') \<Rightarrow> Some (([], Some e), tr')
      | Some (Inr count, tr') \<Rightarrow>
          (let chunk_size = min chunk_size count
           in if chunk_size * array_size self < 0 \<or> chunk_size < 0 then Some (([], Some ValueError), tr')
              else if chunk_size = 0 then Some (([], Some ValueError), tr')
              else series_generator_loop L self array_index count (chunk_starts count chunk_size)
                     chunk_size (zeros (chunk_size * array_size self)) (zeros chunk_size) [] tr'))"

section \<open>DWArrayInfo\<close>

text \<open>
  An element of \<^verbatim>\<open>xml.etree.ElementTree\<close>: its tag, its text (\<^verbatim>\<open>None\<close> when it has
  none) and its children. The parser \<^verbatim>\<open>ElementTree.fromstring\<close> is a parameter of the
  model (\<open>None\<close> when it raises \<^verbatim>\<open>ParseError\<close>). \<^verbatim>\<open>find\<close> with the path
  \<^verbatim>\<open>./ArrayInfo/Axis/StringValues\<close> returns the first element that the path reaches
  from the root, in document order, or \<^verbatim>\<open>None\<close>.
\<close>

datatype xml = Element (xml_tag: string) (xml_text: "string option") (xml_children: "xml list")

definition child_elems :: "string \<Rightarrow> xml list \<Rightarrow> xml list" where
  "child_elems t es = concat (map (\<lambda>e. filter (\<lambda>c. xml_tag c = t) (xml_children e)) es)"

definition find_StringValues :: "xml \<Rightarrow> xml option" where
  "find_StringValues doc_root =
     (case child_elems ''StringValues'' (child_elems ''Axis'' (child_elems ''ArrayInfo'' [doc_root])) of
        [] \<Rightarrow> None
      | e # _ \<Rightarrow> Some e)"

text \<open>\<^verbatim>\<open>str.split(sep)\<close> with a one-character separator.\<close>

fun split_on :: "char \<Rightarrow> string \<Rightarrow> string list" where
  "split_on sep [] = [[]]"
| "split_on sep (c # cs) =
     (if c = sep then [] # split_on sep cs
      else (case split_on sep cs of [] \<Rightarrow> [[c]] | w # ws \<Rightarrow> (c # w) # ws))"

text \<open>
  \<^verbatim>\<open>axes[k]\<close> on a Python list: the positions \<open>0\<close> up to the length are read
  directly, the positions from minus the length up to \<open>-1\<close> are read from the back, and
  every other position raises \<^verbatim>\<open>IndexError\<close>.
\<close>

definition py_index :: "'a list \<Rightarrow> int \<Rightarrow> exn + 'a" where
  "py_index xs k =
     (if 0 \<le> k \<and> k < int (length xs) then Inr (xs ! nat k)
      else if k < 0 \<and> - int (length xs) \<le> k then Inr (xs ! nat (int (length xs) + k))
      else Inl IndexError)"

text \<open>
  The \<^verbatim>\<open>name\<close> property of \<^verbatim>\<open>DWArrayInfo\<close> compares \<^verbatim>\<open>self._name\<close>, which ctypes
  reads from a \<^verbatim>\<open>c_char\<close> array as a \<^verbatim>\<open>bytes\<close> object, with the \<^verbatim>\<open>str\<close> literal
  \<^verbatim>\<open>'_'\<close>; in Python 3 a \<^verbatim>\<open>bytes\<close> object never equals a \<^verbatim>\<open>str\<close>. The branch
  behind the comparison reads the attribute \<^verbatim>\<open>self.colums\<close>, which no class defines.
\<close>

definition py_bytes_eq_str :: "string \<Rightarrow> string \<Rightarrow> bool" where
  "py_bytes_eq_str b s = False"

definition DWArrayInfo_name :: "DWArrayInfo \<Rightarrow> exn + string" where
  "DWArrayInfo_name self =
     (if py_bytes_eq_str (axis_raw_name self) ''_'' then Inl AttributeError
      else Inr (axis_raw_name self))"

text \<open>
  The fallback of \<^verbatim>\<open>columns\<close>:
  \<^verbatim>\<open>[self.channel.array_info[self.index].name for _ in range(self.size)]\<close>, which reads the
  axes from the library once per column.
\<close>

fun columns_fallback :: "dll \<Rightarrow> DWArrayInfo \<Rightarrow> nat \<Rightarrow> string list py" where
  "columns_fallback L self 0 = py_return []"
| "columns_fallback L self (Suc n) =
     py_bind (DWChannel_array_info L (axis_channel self)) (\<lambda>axes tr.
       case py_index axes (axis_index self) of
         Inl e \<Rightarrow> Some (Inl e, tr)
       | Inr ax \<Rightarrow>
           (case DWArrayInfo_name ax of
              Inl e \<Rightarrow> Some (Inl e, tr)
            | Inr nm \<Rightarrow> py_bind (columns_fallback L self n) (\<lambda>rest. py_return (nm # rest)) tr))"

definition DWArrayInfo_columns ::
  "dll \<Rightarrow> (string \<Rightarrow> xml option) \<Rightarrow> DWArrayInfo \<Rightarrow> string list py" where
  "DWArrayInfo_columns L fromstring self =
     py_bind (DWChannel_channel_xml L (axis_channel self)) (\<lambda>channel_xml tr.
       case fromstring channel_xml of
         None \<Rightarrow> Some (Inl ParseError, tr)
       | Some doc_root \<Rightarrow>
           (case find_StringValues doc_root of
              None \<Rightarrow> Some (Inl AttributeError, tr)
            | Some found \<Rightarrow>
                (let element = xml_text found;
                     column_names = map_option (\<lambda>s. tl (split_on CHR '';'' s)) element;
                     prefix = name (axis_channel self)
                 in case column_names of
                      Some cols \<Rightarrow> Some (Inr (map (\<lambda>col_name. prefix @ ''_'' @ col_name) cols), tr)
                    | None \<Rightarrow> columns_fallback L self (nat (axis_size self)) tr)))"

subsection \<open>DWChannel.dataframe\<close>

record DataFrame =
  df_data :: "real list list"
  df_index :: "real list"
  df_columns :: "string list"

fun extend_columns :: "dll \<Rightarrow> (string \<Rightarrow> xml option) \<Rightarrow> DWArrayInfo list \<Rightarrow> string list
  \<Rightarrow> string list py" where
  "extend_columns L fromstring [] columns = py_return columns"
| "extend_columns L fromstring (array_info # rest) columns =
     py_bind (DWArrayInfo_columns L fromstring array_info) (\<lambda>cs.
       extend_columns L fromstring rest (columns @ cs))"

text \<open>
  \<^verbatim>\<open>dataframe\<close>: the bulk samples, the column names, the de-duplication of the
  timestamps, and the rows of the first occurrences. The reshape asks the library for the
  sample count a third time and raises \<^verbatim>\<open>ValueError\<close> when the shape does not fit (a
  count of -1 lets numpy infer the rows); pandas raises \<^verbatim>\<open>ValueError\<close> when the number
  of column names is not the number of columns.
\<close>

definition DWChannel_dataframe :: "dll \<Rightarrow> (string \<Rightarrow> xml option) \<Rightarrow> DWChannel \<Rightarrow> DataFrame py" where
  "DWChannel_dataframe L fromstring self =
     py_bind (DWChannel_scaled L self 0) (\<lambda>(time, data).
       py_bind
         (if array_size self = 1 then py_return [name self]
          else py_bind (DWChannel_array_info L self) (\<lambda>axes. extend_columns L fromstring axes []))
         (\<lambda>columns.
            (let (time, ix) = np_unique time
             in py_bind (DWChannel_number_of_samples L self) (\<lambda>count tr.
                  (let asz = nat (array_size self);
                       rows = (if count = - 1 then int (length data div asz) else count)
                   in if rows < 0 \<or> nat rows * asz \<noteq> length data then Some (Inl ValueError, tr)
                      else if length columns \<noteq> asz then Some (Inl ValueError, tr)
                      else Some (Inr \<lparr>df_data = map (\<lambda>i. take asz (drop (i * asz) data)) ix,
                                      df_index = time, df_columns = columns\<rparr>, tr))))))"

section \<open>DWFile\<close>

record DWFile =
  file_name :: string
  file_closed :: bool
  file_info :: "DWMeasurementInfo option"
  file_channels :: "DWChannel list option"
  file_reader_handle :: "nat option"

text \<open>
  A method that changes the object returns the object it leaves behind, also when it
  raises. \<open>checked_self\<close> is the statement \<^verbatim>\<open>check_lib_status(status)\<close> in such a
  method: on a raise the object is as it was at that statement.
\<close>

definition checked_self ::
  "dll \<Rightarrow> int \<Rightarrow> 's \<Rightarrow> dll_call list
     \<Rightarrow> (dll_call list \<Rightarrow> ((exn + 'a) \<times> 's \<times> dll_call list) option)
     \<Rightarrow> ((exn + 'a) \<times> 's \<times> dll_call list) option" where
  "checked_self L status self tr k =
     (case check_lib_status L status tr of
        None \<Rightarrow> None
      | Some (Inl e, tr') \<Rightarrow> Some (Inl e, self, tr')
      | Some (Inr _, tr') \<Rightarrow> k tr')"

text \<open>
  \<^verbatim>\<open>close\<close>: nothing when the flag \<^verbatim>\<open>closed\<close> is set; otherwise the data file is closed,
  the reader is destroyed when the handle is not \<^verbatim>\<open>None\<close>, the handle is dropped, the
  flag is set and the channel list is emptied. The statuses of both calls are ignored.
\<close>

definition DWFile_close :: "DWFile \<Rightarrow> dll_call list \<Rightarrow> DWFile \<times> dll_call list" where
  "DWFile_close self tr =
     (if \<not> file_closed self then
        (let tr1 = tr @ [CloseDataFile (as_pointer (file_reader_handle self))];
             (self1, tr2) =
                (case file_reader_handle self of
                   None \<Rightarrow> (self, tr1)
                 | Some p \<Rightarrow> (self\<lparr>file_reader_handle := None\<rparr>, tr1 @ [DestroyReader p]))
         in (self1\<lparr>file_closed := True, file_channels := Some []\<rparr>, tr2))
      else (self, tr))"

text \<open>
  The \<^verbatim>\<open>try\<close> block of \<^verbatim>\<open>open\<close>. The array of channel structures has
  \<^verbatim>\<open>ch_count\<close> zeroed cells (a negative count raises \<^verbatim>\<open>ValueError\<close>).
\<close>

definition zero_channel :: DWChannelStruct where
  "zero_channel = \<lparr>index = 0, name = [], unit = [], description = [], color = 0,
                    array_size = 0, data_type = 0\<rparr>"

definition zero_info :: DWMeasurementInfo where
  "zero_info = \<lparr>sample_rate = 0, raw_start_measure_time = 0, raw_start_store_time = 0,
                 duration = 0\<rparr>"

definition DWFile_open_try ::
  "dll \<Rightarrow> DWFile \<Rightarrow> string \<Rightarrow> dll_call list \<Rightarrow> ((exn + unit) \<times> DWFile \<times> dll_call list) option" where
  "DWFile_open_try L self source tr =
     (let h = as_pointer (file_reader_handle self);
          (status, inf) = DWIOpenDataFile L tr h source;
          self1 = self\<lparr>file_info := Some inf\<rparr>
      in checked_self L status self1 (tr @ [OpenDataFile h source]) (\<lambda>tr1.
           (let (status, inf) = DWIGetMeasurementInfo L tr1 h;
                self2 = self1\<lparr>file_info := Some inf\<rparr>
            in checked_self L status self2 (tr1 @ [GetMeasurementInfo h]) (\<lambda>tr2.
                 (let self3 = self2\<lparr>file_closed := False\<rparr>;
                      (status, ch_count) = DWIGetChannelListCount L tr2 h
                  in checked_self L status self3 (tr2 @ [GetChannelListCount h]) (\<lambda>tr3.
                       if ch_count < 0 then Some (Inl ValueError, self3, tr3)
                       else
                         (let (status, written) = DWIGetChannelList L tr3 h;
                              channel_structs =
                                overwrite (replicate (nat ch_count) zero_channel) written
                          in checked_self L status self3 (tr3 @ [GetChannelList h]) (\<lambda>tr4.
                               Some (Inr (),
                                     self3\<lparr>file_channels := Some (map (\<lambda>ch.
                                        DWChannelStruct.extend ch
                                          \<lparr>reader_handle = file_reader_handle self3\<rparr>)
                                        channel_structs)\<rparr>,
                                     tr4)))))))))"

text \<open>
  \<^verbatim>\<open>open\<close>: the handler \<^verbatim>\<open>except RuntimeError\<close> calls \<^verbatim>\<open>close\<close> and raises the
  error again; any other exception passes through untouched.
\<close>

definition DWFile_open ::
  "dll \<Rightarrow> DWFile \<Rightarrow> string \<Rightarrow> dll_call list \<Rightarrow> ((exn + unit) \<times> DWFile \<times> dll_call list) option" where
  "DWFile_open L self source tr =
     (case DWFile_open_try L self source tr of
        None \<Rightarrow> None
      | Some (Inl (RuntimeError status err_msg), self', tr') \<Rightarrow>
          (let (self'', tr'') = DWFile_close self' tr'
           in Some (Inl (RuntimeError status err_msg), self'', tr''))
      | Some r \<Rightarrow> Some r)"

text \<open>
  \<^verbatim>\<open>__init__\<close> and \<^verbatim>\<open>open_file\<close>: the fields, the reader, and \<^verbatim>\<open>open\<close> when a
  non-empty source is given.
\<close>

definition DWFile_init ::
  "dll \<Rightarrow> string option \<Rightarrow> dll_call list \<Rightarrow> ((exn + unit) \<times> DWFile \<times> dll_call list) option" where
  "DWFile_init L source tr =
     (let self = \<lparr>file_name = [], file_closed = True, file_info = None, file_channels = None,
                  file_reader_handle = None\<rparr>;
          (status, reader_handle) = DWICreateReader L tr
      in checked_self L status self (tr @ [CreateReader]) (\<lambda>tr1.
           (let self1 = self\<lparr>file_reader_handle := Some reader_handle\<rparr>
            in case source of
                 None \<Rightarrow> Some (Inr (), self1, tr1)
               | Some s \<Rightarrow> if s = [] then Some (Inr (), self1, tr1) else DWFile_open L self1 s tr1)))"

definition open_file ::
  "dll \<Rightarrow> string \<Rightarrow> dll_call list \<Rightarrow> ((exn + unit) \<times> DWFile \<times> dll_call list) option" where
  "open_file L source = DWFile_init L (Some source)"

subsection \<open>header\<close>

definition startswith :: "string \<Rightarrow> string \<Rightarrow> bool" where
  "startswith s p = (take (length p) s = p)"

text \<open>
  The loop of \<^verbatim>\<open>header\<close> over the entry numbers still to come. The dictionary is an
  association list in insertion order; assigning to a key that is present replaces its
  value in place. The text buffer has 200 bytes and the name buffer 100.
\<close>

fun header_loop ::
  "dll \<Rightarrow> nat \<Rightarrow> nat list \<Rightarrow> (string \<times> string) list \<Rightarrow> (string \<times> string) list py" where
  "header_loop L h [] header tr = Some (Inr header, tr)"
| "header_loop L h (i # rest) header tr =
     (let (status, text_value) = DWIGetHeaderEntryTextF L tr h (int i) 200
      in py_bind (check_lib_status L status) (\<lambda>_ tr1.
           (let txt = take 200 text_value
            in if txt \<noteq> [] \<and> \<not> (startswith txt ''Select...'' \<or> startswith txt ''To fill out'')
               then
                 (let (status, name_value) = DWIGetHeaderEntryNameF L tr1 h (int i) 100
                  in py_bind (check_lib_status L status) (\<lambda>_.
                       header_loop L h rest (AList.update (take 100 name_value) txt header))
                       (tr1 @ [GetHeaderEntryNameF h (int i) 100]))
               else header_loop L h rest header tr1))
           (tr @ [GetHeaderEntryTextF h (int i) 200]))"

definition header_loop_from :: "dll \<Rightarrow> nat \<Rightarrow> int \<Rightarrow> unit \<Rightarrow> (string \<times> string) list py" where
  "header_loop_from L h count u = header_loop L h [0 ..< nat count] []"

definition DWFile_header :: "dll \<Rightarrow> DWFile \<Rightarrow> (string \<times> string) list py" where
  "DWFile_header L self tr =
     (let h = as_pointer (file_reader_handle self);
          (status, count) = DWIGetHeaderEntryCount L tr h
      in py_bind (check_lib_status L status) (header_loop_from L h count)
           (tr @ [GetHeaderEntryCount h]))"

subsection \<open>\_\_getitem\_\_\<close>

text \<open>
  The keys \<^verbatim>\<open>__getitem__\<close> tells apart by \<^verbatim>\<open>type(key)\<close>: a \<^verbatim>\<open>DWChannel\<close>, a
  \<^verbatim>\<open>str\<close>, and any other object, of which the integers are modelled. A loop that ends
  without a \<^verbatim>\<open>return\<close> falls off the end of the function, which then returns
  \<^verbatim>\<open>None\<close>: the result \<open>Inr None\<close>. In the \<^verbatim>\<open>str\<close> branch the test
  \<^verbatim>\<open>ch.index == key\<close> compares an \<^verbatim>\<open>int\<close> with a \<^verbatim>\<open>str\<close>, which are never equal.
  Iterating \<^verbatim>\<open>self.channels\<close> before any \<^verbatim>\<open>open\<close> iterates \<^verbatim>\<open>None\<close>
  (\<^verbatim>\<open>TypeError\<close>).
\<close>

datatype key = KeyChannel DWChannel | KeyStr string | KeyInt int

definition py_int_eq_str :: "int \<Rightarrow> string \<Rightarrow> bool" where
  "py_int_eq_str i s = False"

definition DWFile_getitem :: "DWFile \<Rightarrow> key \<Rightarrow> exn + DWChannel option" where
  "DWFile_getitem self k =
     (case k of
        KeyChannel kc \<Rightarrow>
          (case file_channels self of
             None \<Rightarrow> Inl TypeError
           | Some chs \<Rightarrow> Inr (List.find (\<lambda>ch. index ch = index kc \<or> name ch = name kc) chs))
      | KeyStr ks \<Rightarrow>
          (case file_channels self of
             None \<Rightarrow> Inl TypeError
           | Some chs \<Rightarrow> Inr (List.find (\<lambda>ch. py_int_eq_str (index ch) ks \<or> name ch = ks) chs))
      | KeyInt ki \<Rightarrow> Inl KeyError)"

section \<open>Behaviours of the library\<close>

text \<open>
  What the library answers is not in the repository; the properties below say under which
  answers they hold. \<open>undersized_then_text L tr len sizes msg\<close>: asked for the last status
  text with a buffer of \<open>len\<close> bytes after the calls \<open>tr\<close>, the library reports the
  buffer as undersized (\<^verbatim>\<open>DWSTAT_ERROR_NO_MEMORY_ALLOC\<close>, the status the loop of
  \<^verbatim>\<open>check_lib_status\<close> tests for) once for each element of \<open>sizes\<close>, asking for that
  many bytes, and then answers with another status and the text \<open>msg\<close>.
\<close>

fun undersized_then_text :: "dll \<Rightarrow> dll_call list \<Rightarrow> int \<Rightarrow> int list \<Rightarrow> string \<Rightarrow> bool" where
  "undersized_then_text L tr len [] msg =
     (case DWGetLastStatus L tr len of
        (ret, err_msg, new_len) \<Rightarrow>
          ret \<noteq> status_value DWSTAT_ERROR_NO_MEMORY_ALLOC \<and> err_msg = msg)"
| "undersized_then_text L tr len (n # ns) msg =
     (case DWGetLastStatus L tr len of
        (ret, err_msg, new_len) \<Rightarrow>
          ret = status_value DWSTAT_ERROR_NO_MEMORY_ALLOC \<and> new_len = n \<and> 0 \<le> n
          \<and> undersized_then_text L (tr @ [GetLastStatus len]) n ns msg)"

text \<open>
  A library that answers every call with \<^verbatim>\<open>DWSTAT_OK\<close> and writes nothing; the
  examples below change single entry points of it.
\<close>

definition quiet_dll :: dll where
  "quiet_dll =
     \<lparr>DWICreateReader = (\<lambda>tr. (0, 1)),
      DWIOpenDataFile = (\<lambda>tr h source. (0, zero_info)),
      DWIGetMeasurementInfo = (\<lambda>tr h. (0, zero_info)),
      DWIGetChannelListCount = (\<lambda>tr h. (0, 0)),
      DWIGetChannelList = (\<lambda>tr h. (0, [])),
      DWIGetHeaderEntryCount = (\<lambda>tr h. (0, 0)),
      DWIGetHeaderEntryTextF = (\<lambda>tr h i n. (0, [])),
      DWIGetHeaderEntryNameF = (\<lambda>tr h i n. (0, [])),
      DWIGetScaledSamplesCount = (\<lambda>tr h i. (0, 0)),
      DWIGetScaledSamples = (\<lambda>tr h i off n. (0, [], [])),
      DWIGetReducedValuesCount = (\<lambda>tr h i. (0, 0, 0)),
      DWIGetReducedValues = (\<lambda>tr h i off n. (0, [])),
      DWIGetChannelProps_int = (\<lambda>tr h i p. (0, 0)),
      DWIGetChannelProps_double = (\<lambda>tr h i p. (0, 0)),
      DWIGetChannelProps_str = (\<lambda>tr h i p n. (0, [])),
      DWIGetArrayInfoCount = (\<lambda>tr h i. (0, 0)),
      DWIGetArrayInfoList = (\<lambda>tr h i. (0, [])),
      DWGetLastStatus = (\<lambda>tr n. (0, [], n))\<rparr>"

text \<open>
  A library whose last status text, \<^verbatim>\<open>file not found\<close>, needs a buffer of 2048 bytes.
\<close>

definition long_text_dll :: dll where
  "long_text_dll =
     quiet_dll\<lparr>DWGetLastStatus :=
       (\<lambda>tr n. if n < 2048 then (5, [], 2048) else (0, ''file not found'', n))\<rparr>"

text \<open>
  \<open>serves_header L h entries\<close>: for the reader \<open>h\<close> the library holds the header
  entries \<open>entries\<close>, each a name and a text, and answers the three header queries with
  \<^verbatim>\<open>DWSTAT_OK\<close>, their number, and the text and the name at a position.
\<close>

definition serves_header :: "dll \<Rightarrow> nat \<Rightarrow> (string \<times> string) list \<Rightarrow> bool" where
  "serves_header L h entries =
     (\<forall>tr. DWIGetHeaderEntryCount L tr h = (0, int (length entries))
         \<and> (\<forall>i < length entries.
               DWIGetHeaderEntryTextF L tr h (int i) 200 = (0, snd (entries ! i))
               \<and> DWIGetHeaderEntryNameF L tr h (int i) 100 = (0, fst (entries ! i))))"

text \<open>
  In the words of the specification: a placeholder text starts with \<^verbatim>\<open>Select...\<close> or
  with \<^verbatim>\<open>To fill out\<close>. An entry is kept when its text is neither empty nor a
  placeholder; its name and text are cut to the buffers that receive them. Assigning the
  kept entries in their order gives the dictionary.
\<close>

definition placeholder :: "string \<Rightarrow> bool" where
  "placeholder txt = (startswith txt ''Select...'' \<or> startswith txt ''To fill out'')"

definition kept_entries :: "(string \<times> string) list \<Rightarrow> (string \<times> string) list" where
  "kept_entries entries =
     map (\<lambda>(nm, txt). (take 100 nm, take 200 txt))
       (filter (\<lambda>(nm, txt). txt \<noteq> [] \<and> \<not> placeholder txt) entries)"

definition header_step :: "(string \<times> string) list \<Rightarrow> string \<times> string \<Rightarrow> (string \<times> string) list" where
  "header_step hdr e = AList.update (fst e) (snd e) hdr"

text \<open>
  A library with four header entries: an empty text, two entries of one name, and a
  placeholder.
\<close>

definition header_entries_example :: "(string \<times> string) list" where
  "header_entries_example =
     [(''Operator'', []), (''Site'', ''Graz''), (''Site'', ''Wien''), (''Type'', ''Select...'')]"

definition header_dll :: dll where
  "header_dll =
     quiet_dll\<lparr>DWIGetHeaderEntryCount := (\<lambda>tr h. (0, 4)),
               DWIGetHeaderEntryTextF := (\<lambda>tr h i n. (0, snd (header_entries_example ! nat i))),
               DWIGetHeaderEntryNameF := (\<lambda>tr h i n. (0, fst (header_entries_example ! nat i)))\<rparr>"

section \<open>Example files\<close>

definition scalar_channel :: "int \<Rightarrow> string \<Rightarrow> nat option \<Rightarrow> DWChannel" where
  "scalar_channel i nm h =
     \<lparr>index = i, name = nm, unit = [], description = [], color = 0, array_size = 1,
      data_type = 0, reader_handle = h\<rparr>"

definition scalar_struct :: "int \<Rightarrow> string \<Rightarrow> DWChannelStruct" where
  "scalar_struct i nm =
     \<lparr>index = i, name = nm, unit = [], description = [], color = 0, array_size = 1,
      data_type = 0\<rparr>"

text \<open>A library holding one file with the two scalar channels \<^verbatim>\<open>speed\<close> and \<^verbatim>\<open>temp\<close>.\<close>

definition two_channel_dll :: dll where
  "two_channel_dll =
     quiet_dll\<lparr>DWIGetChannelListCount := (\<lambda>tr h. (0, 2)),
               DWIGetChannelList :=
                 (\<lambda>tr h. (0, [scalar_struct 0 ''speed'', scalar_struct 1 ''temp'']))\<rparr>"

definition two_channel_file :: DWFile where
  "two_channel_file =
     \<lparr>file_name = [], file_closed = False, file_info = Some zero_info,
      file_channels = Some [scalar_channel 0 ''speed'' (Some 1), scalar_channel 1 ''temp'' (Some 1)],
      file_reader_handle = Some 1\<rparr>"

text \<open>
  A library that opens the data file and then fails the measurement information query
  with \<^verbatim>\<open>DWSTAT_ERROR_FILE_CORRUPT\<close>, and one that cannot open the data file.
\<close>

definition info_fails_dll :: dll where
  "info_fails_dll =
     quiet_dll\<lparr>DWIGetMeasurementInfo := (\<lambda>tr h. (4, zero_info)),
               DWGetLastStatus := (\<lambda>tr n. (0, ''corrupt'', n))\<rparr>"

definition cannot_open_dll :: dll where
  "cannot_open_dll =
     quiet_dll\<lparr>DWIOpenDataFile := (\<lambda>tr h source. (2, zero_info)),
               DWGetLastStatus := (\<lambda>tr n. (0, ''cannot open'', n))\<rparr>"

text \<open>A library that fails the channel count query, after the file is open.\<close>

definition count_fails_dll :: dll where
  "count_fails_dll =
     quiet_dll\<lparr>DWIGetChannelListCount := (\<lambda>tr h. (1, 0)),
               DWGetLastStatus := (\<lambda>tr n. (0, ''error'', n))\<rparr>"

text \<open>The calls in a log that destroy a reader, and those that close a data file.\<close>

fun is_DestroyReader :: "dll_call \<Rightarrow> bool" where
  "is_DestroyReader (DestroyReader p) = True"
| "is_DestroyReader c = False"

fun is_CloseDataFile :: "dll_call \<Rightarrow> bool" where
  "is_CloseDataFile (CloseDataFile p) = True"
| "is_CloseDataFile c = False"

definition releases :: "dll_call list \<Rightarrow> nat" where
  "releases tr = length (filter is_DestroyReader tr)"

definition file_closes :: "dll_call list \<Rightarrow> nat" where
  "file_closes tr = length (filter is_CloseDataFile tr)"

text \<open>\<^verbatim>\<open>close\<close> called \<open>n\<close> times in a row.\<close>

primrec close_times :: "nat \<Rightarrow> DWFile \<Rightarrow> dll_call list \<Rightarrow> DWFile \<times> dll_call list" where
  "close_times 0 self tr = (self, tr)"
| "close_times (Suc n) self tr = (let (self', tr') = DWFile_close self tr in close_times n self' tr')"

text \<open>
  \<open>released tr h\<close>: the log holds the destruction of the reader \<open>h\<close>.
  \<open>rejects_released L msg\<close>: the library answers every channel query on a destroyed
  reader with \<^verbatim>\<open>DWSTAT_ERROR_INVALID_READER\<close>, and its last status text is \<open>msg\<close>,
  which it hands out at the first query.
\<close>

definition released :: "dll_call list \<Rightarrow> nat \<Rightarrow> bool" where
  "released tr h = (DestroyReader h \<in> set tr)"

definition rejects_released :: "dll \<Rightarrow> string \<Rightarrow> bool" where
  "rejects_released L msg =
     ((\<forall>tr h. released tr h \<longrightarrow>
          (\<forall>i. fst (DWIGetScaledSamplesCount L tr h i) = 11)
        \<and> (\<forall>i off n. fst (DWIGetScaledSamples L tr h i off n) = 11)
        \<and> (\<forall>i. fst (DWIGetReducedValuesCount L tr h i) = 11)
        \<and> (\<forall>i off n. fst (DWIGetReducedValues L tr h i off n) = 11)
        \<and> (\<forall>i p. fst (DWIGetChannelProps_int L tr h i p) = 11)
        \<and> (\<forall>i p. fst (DWIGetChannelProps_double L tr h i p) = 11)
        \<and> (\<forall>i p n. fst (DWIGetChannelProps_str L tr h i p n) = 11)
        \<and> (\<forall>i. fst (DWIGetArrayInfoCount L tr h i) = 11)
        \<and> (\<forall>i. fst (DWIGetArrayInfoList L tr h i) = 11))
      \<and> (\<forall>tr n. fst (DWGetLastStatus L tr n) = 0 \<and> fst (snd (DWGetLastStatus L tr n)) = msg))"

text \<open>
  The library of the two-channel file, with three samples per channel, that rejects a
  destroyed reader in this way.
\<close>

definition strict_dll :: dll where
  "strict_dll =
     two_channel_dll\<lparr>
       DWIGetScaledSamplesCount := (\<lambda>tr h i. if released tr h then (11, 0) else (0, 3)),
       DWIGetScaledSamples :=
         (\<lambda>tr h i off n. if released tr h then (11, [], [])
                          else (0, take (nat n) (drop (nat off) [10, 20, 30]),
                                take (nat n) (drop (nat off) [0, 1, 2]))),
       DWIGetReducedValuesCount := (\<lambda>tr h i. if released tr h then (11, 0, 0) else (0, 0, 1)),
       DWIGetReducedValues := (\<lambda>tr h i off n. if released tr h then (11, []) else (0, [])),
       DWIGetChannelProps_int := (\<lambda>tr h i p. if released tr h then (11, 0) else (0, 0)),
       DWIGetChannelProps_double := (\<lambda>tr h i p. if released tr h then (11, 0) else (0, 1)),
       DWIGetChannelProps_str := (\<lambda>tr h i p n. if released tr h then (11, []) else (0, [])),
       DWIGetArrayInfoCount := (\<lambda>tr h i. if released tr h then (11, 0) else (0, 0)),
       DWIGetArrayInfoList := (\<lambda>tr h i. if released tr h then (11, []) else (0, [])),
       DWGetLastStatus := (\<lambda>tr n. (0, ''invalid reader'', n))\<rparr>"

text \<open>The log after opening the two-channel file and closing it.\<close>

definition log_after_close :: "dll_call list" where
  "log_after_close =
     [CreateReader, OpenDataFile 1 ''f.d7d'', GetMeasurementInfo 1, GetChannelListCount 1,
      GetChannelList 1, CloseDataFile 1, DestroyReader 1]"

text \<open>
  \<open>sample_dll asz ts ds\<close>: a library whose channels each hold the timestamps \<open>ts\<close>
  and, row by row with \<open>asz\<close> values per sample, the values \<open>ds\<close>; a fetch of \<open>n\<close>
  samples from the offset \<open>off\<close> writes that window.
\<close>

definition sample_dll :: "nat \<Rightarrow> real list \<Rightarrow> real list \<Rightarrow> dll" where
  "sample_dll asz ts ds =
     quiet_dll\<lparr>DWIGetScaledSamplesCount := (\<lambda>tr h i. (0, int (length ts))),
               DWIGetScaledSamples :=
                 (\<lambda>tr h i off n. (0, take (nat n * asz) (drop (nat off * asz) ds),
                                      take (nat n) (drop (nat off) ts)))\<rparr>"

text \<open>
  An array channel \<^verbatim>\<open>acc\<close> with three values per sample and one axis, whose stored
  name is the placeholder \<^verbatim>\<open>_\<close>; a library that serves it together with a metadata
  document \<open>doc\<close>; and three documents with what \<^verbatim>\<open>ElementTree.fromstring\<close> makes of
  them: one whose axis has no \<^verbatim>\<open>StringValues\<close> element, one whose \<^verbatim>\<open>StringValues\<close>
  element is empty, and one whose \<^verbatim>\<open>StringValues\<close> element holds \<^verbatim>\<open>3;X;Y;Z\<close>.
\<close>

definition array_channel :: DWChannel where
  "array_channel =
     \<lparr>index = 2, name = ''acc'', unit = [], description = [], color = 0, array_size = 3,
      data_type = 0, reader_handle = Some 1\<rparr>"

definition sentinel_axis_struct :: DWArrayInfoStruct where
  "sentinel_axis_struct =
     \<lparr>axis_index = 0, axis_raw_name = ''_'', axis_raw_unit = [], axis_size = 3\<rparr>"

definition sentinel_axis :: DWArrayInfo where
  "sentinel_axis =
     \<lparr>axis_index = 0, axis_raw_name = ''_'', axis_raw_unit = [], axis_size = 3,
      axis_channel = array_channel\<rparr>"

definition axis_dll :: "string \<Rightarrow> dll" where
  "axis_dll doc =
     quiet_dll\<lparr>DWIGetChannelProps_int := (\<lambda>tr h i p. (0, int (length doc))),
               DWIGetChannelProps_str := (\<lambda>tr h i p n. (0, doc)),
               DWIGetArrayInfoCount := (\<lambda>tr h i. (0, 1)),
               DWIGetArrayInfoList := (\<lambda>tr h i. (0, [sentinel_axis_struct]))\<rparr>"

definition doc_without_values :: string where
  "doc_without_values =
     ''<Channel><ArrayInfo><Axis><Name>_</Name></Axis></ArrayInfo></Channel>''"

definition doc_empty_values :: string where
  "doc_empty_values =
     ''<Channel><ArrayInfo><Axis><StringValues/></Axis></ArrayInfo></Channel>''"

definition doc_with_values :: string where
  "doc_with_values =
     ''<Channel><ArrayInfo><Axis><StringValues>3;X;Y;Z</StringValues></Axis></ArrayInfo></Channel>''"

definition example_fromstring :: "string \<Rightarrow> xml option" where
  "example_fromstring s =
     (if s = doc_without_values then
        Some (Element ''Channel'' None [Element ''ArrayInfo'' None
               [Element ''Axis'' None [Element ''Name'' (Some ''_'') []]]])
      else if s = doc_empty_values then
        Some (Element ''Channel'' None [Element ''ArrayInfo'' None
               [Element ''Axis'' None [Element ''StringValues'' None []]]])
      else if s = doc_with_values then
        Some (Element ''Channel'' None [Element ''ArrayInfo'' None
               [Element ''Axis'' None [Element ''StringValues'' (Some ''3;X;Y;Z'') []]]])
      else None)"

text \<open>
  \<open>serves_samples L h i asz ts ds\<close>: for the channel \<open>i\<close> of the reader \<open>h\<close> the
  library holds the timestamps \<open>ts\<close> and, with \<open>asz\<close> values per sample, the values
  \<open>ds\<close>; it answers the count query with their number and a fetch of \<open>n\<close> samples
  from the offset \<open>off\<close> with that window, both with \<^verbatim>\<open>DWSTAT_OK\<close>.
\<close>

definition serves_samples ::
  "dll \<Rightarrow> nat \<Rightarrow> int \<Rightarrow> nat \<Rightarrow> real list \<Rightarrow> real list \<Rightarrow> bool" where
  "serves_samples L h i asz ts ds =
     (\<forall>tr. DWIGetScaledSamplesCount L tr h i = (0, int (length ts))
         \<and> (\<forall>off n. DWIGetScaledSamples L tr h i (int off) (int n)
                       = (0, take (n * asz) (drop (off * asz) ds), take n (drop off ts))))"

text \<open>
  In the words of the specification: the \<open>k\<close>-th of the consecutive chunks of at most
  \<open>cs\<close> samples, as a series of the column \<open>col\<close> of its samples over their
  timestamps.
\<close>

definition window_series ::
  "string \<Rightarrow> nat \<Rightarrow> nat \<Rightarrow> real list \<Rightarrow> real list \<Rightarrow> nat \<Rightarrow> nat \<Rightarrow> Series" where
  "window_series nm asz col ts ds cs k =
     \<lparr>series_data = map (\<lambda>i. ds ! ((k * cs + i) * asz + col))
                        [0 ..< min cs (length ts - k * cs)],
      series_index = take cs (drop (k * cs) ts),
      series_name = nm\<rparr>"

text \<open>
  The object and the call log that \<^verbatim>\<open>open_file\<close> leaves behind when the measurement
  information query fails.
\<close>

definition file_after_failed_open :: DWFile where
  "file_after_failed_open =
     \<lparr>file_name = [], file_closed = True, file_info = Some zero_info, file_channels = None,
      file_reader_handle = Some 1\<rparr>"

definition log_after_failed_open :: "dll_call list" where
  "log_after_failed_open =
     [CreateReader, OpenDataFile 1 ''f.d7d'', GetMeasurementInfo 1, GetLastStatus 1024]"

section \<open>Properties of the measurement information\<close>

text \<open>
  C10. The exposed \<open>start_measure_time\<close> always equals the exposed \<open>start_store_time\<close>:
  both are computed from the stored field \<^verbatim>\<open>_start_store_time\<close>, and the stored field
  \<^verbatim>\<open>_start_measure_time\<close> influences neither.
\<close>

theorem start_measure_time_is_start_store_time:
  "start_measure_time m = start_store_time m
   \<and> start_measure_time (m\<lparr>raw_start_measure_time := x\<rparr>) = start_measure_time m
   \<and> start_store_time (m\<lparr>raw_start_measure_time := x\<rparr>) = start_store_time m
   \<and> start_measure_time m = epoch_plus (timedelta (raw_start_store_time m))"
  by (simp add: start_measure_time_def start_store_time_def)

section \<open>Properties of check\_lib\_status\<close>

lemma check_lib_status_ok: "check_lib_status L 0 tr = Some (Inr (), tr)"
  by (simp add: check_lib_status_def)

lemma last_status_loop_run:
  "undersized_then_text L tr len ns msg \<Longrightarrow>
   last_status_loop L len tr = Some (Inr msg, tr @ map GetLastStatus (len # ns))"
proof (induction ns arbitrary: tr len)
  case Nil
  then show ?case
    by (subst last_status_loop.simps) (auto split: prod.splits)
next
  case (Cons n ns)
  then show ?case
    by (subst last_status_loop.simps) (auto split: prod.splits)
qed

lemma check_lib_status_raises:
  assumes "status \<noteq> 0" and "undersized_then_text L tr 1024 ns msg"
  shows "check_lib_status L status tr
           = Some (Inl (RuntimeError status msg), tr @ map GetLastStatus (1024 # ns))"
  using assms last_status_loop_run[of L tr 1024 ns msg] by (simp add: check_lib_status_def)

lemma check_lib_status_not_normal:
  "status \<noteq> 0 \<Longrightarrow> check_lib_status L status tr \<noteq> Some (Inr u, tr')"
  by (auto simp: check_lib_status_def split: option.splits sum.splits)

text \<open>
  When the loop ends, it ends in one of two ways: the library reported the buffer as
  undersized some number of times and then answered, and the loop asked once for each
  report with the length reported; or a reported length was negative.
\<close>

lemma last_status_loop_returns:
  assumes "last_status_loop L len tr = Some y"
  shows "(\<exists>ns msg. y = (Inr msg, tr @ map GetLastStatus (len # ns))
              \<and> undersized_then_text L tr len ns msg)
         \<or> fst y = Inl ValueError"
  using assms
proof (induction rule: last_status_loop.raw_induct[rotated 1, consumes 1])
  case (1 lp L len tr y)
  obtain ret m n where a: "DWGetLastStatus L tr len = (ret, m, n)"
    by (cases "DWGetLastStatus L tr len") auto
  show ?case
  proof (cases "ret = 5")
    case False
    with 1(2) a have "y = (Inr m, tr @ map GetLastStatus (len # []))
        \<and> undersized_then_text L tr len [] m"
      by auto
    then show ?thesis by blast
  next
    case True
    show ?thesis
    proof (cases "n < 0")
      case True
      with \<open>ret = 5\<close> 1(2) a show ?thesis by auto
    next
      case False
      with \<open>ret = 5\<close> 1(2) a have "lp L n (tr @ [GetLastStatus len]) = Some y" by auto
      from 1(1)[OF this] show ?thesis
      proof
        assume "fst y = Inl ValueError"
        then show ?thesis by blast
      next
        assume "\<exists>ns msg. y = (Inr msg, (tr @ [GetLastStatus len]) @ map GetLastStatus (n # ns))
              \<and> undersized_then_text L (tr @ [GetLastStatus len]) n ns msg"
        then obtain ns msg where
          m: "y = (Inr msg, (tr @ [GetLastStatus len]) @ map GetLastStatus (n # ns))"
             "undersized_then_text L (tr @ [GetLastStatus len]) n ns msg"
          by blast
        have "y = (Inr msg, tr @ map GetLastStatus (len # n # ns))
            \<and> undersized_then_text L tr len (n # ns) msg"
          using m a \<open>ret = 5\<close> False by simp
        then show ?thesis by blast
      qed
    qed
  qed
qed

text \<open>
  A library that reports the buffer as undersized on every query keeps the loop, and with
  it \<^verbatim>\<open>check_lib_status\<close> on a status other than \<^verbatim>\<open>DWSTAT_OK\<close>, from ever returning.
\<close>

lemma last_status_loop_never_returns:
  assumes "last_status_loop L len tr = Some y"
    and "\<forall>tr n. fst (DWGetLastStatus L tr n) = status_value DWSTAT_ERROR_NO_MEMORY_ALLOC
                     \<and> 0 \<le> snd (snd (DWGetLastStatus L tr n))"
  shows False
  using assms
proof (induction rule: last_status_loop.raw_induct[rotated 1, consumes 1])
  case (1 lp L len tr y)
  obtain ret m n where a: "DWGetLastStatus L tr len = (ret, m, n)"
    by (cases "DWGetLastStatus L tr len") auto
  from 1(3) a have "ret = 5" "0 \<le> n"
    by (metis fst_conv status_value.simps(6), metis snd_conv)
  with 1(2) a have "lp L n (tr @ [GetLastStatus len]) = Some y" by auto
  then show ?case using 1(3) by (rule 1(1))
qed

lemma check_lib_status_diverges:
  assumes "\<forall>tr n. fst (DWGetLastStatus L tr n) = status_value DWSTAT_ERROR_NO_MEMORY_ALLOC
                     \<and> 0 \<le> snd (snd (DWGetLastStatus L tr n))"
    and "status \<noteq> status_value DWSTAT_OK"
  shows "check_lib_status L status tr = None"
proof -
  have "last_status_loop L 1024 tr = None"
    using last_status_loop_never_returns[OF _ assms(1)]
    by (cases "last_status_loop L 1024 tr") auto
  with assms(2) show ?thesis by (simp add: check_lib_status_def)
qed

text \<open>
  C6. \<^verbatim>\<open>check_lib_status\<close> returns normally exactly when the status is
  \<^verbatim>\<open>DWSTAT_OK\<close>, and then without a query. On any other status it never returns
  normally; every \<^verbatim>\<open>RuntimeError\<close> it raises carries that status; and it raises the
  \<^verbatim>\<open>RuntimeError\<close> with that status and the text \<open>msg\<close>, leaving the call log
  \<open>tr'\<close>, exactly when the library reported the message buffer as undersized for some
  sequence of lengths \<open>ns\<close> and then answered \<open>msg\<close> with another status: the log then
  holds one query with the initial 1024 bytes and one retry per report, each with the
  length the library reported, and nothing after the first answer that is not an
  undersized report. The library reports an undersized buffer through the status
  \<^verbatim>\<open>DWSTAT_ERROR_NO_MEMORY_ALLOC\<close>, which is the status the loop tests.
\<close>

theorem check_lib_status_translates:
  "check_lib_status L (status_value DWSTAT_OK) tr = Some (Inr (), tr)
   \<and> (status \<noteq> status_value DWSTAT_OK \<longrightarrow>
        (\<forall>tr'. check_lib_status L status tr \<noteq> Some (Inr (), tr'))
        \<and> (\<forall>s m tr'. check_lib_status L status tr = Some (Inl (RuntimeError s m), tr')
              \<longrightarrow> s = status)
        \<and> (\<forall>msg tr'. check_lib_status L status tr = Some (Inl (RuntimeError status msg), tr')
              \<longleftrightarrow> (\<exists>ns. undersized_then_text L tr 1024 ns msg
                         \<and> tr' = tr @ map GetLastStatus (1024 # ns))))"
proof -
  have ok: "check_lib_status L (status_value DWSTAT_OK) tr = Some (Inr (), tr)"
    by (simp add: check_lib_status_def)
  have rest: "(\<forall>tr'. check_lib_status L status tr \<noteq> Some (Inr (), tr'))
        \<and> (\<forall>s m tr'. check_lib_status L status tr = Some (Inl (RuntimeError s m), tr')
              \<longrightarrow> s = status)
        \<and> (\<forall>msg tr'. check_lib_status L status tr = Some (Inl (RuntimeError status msg), tr')
              \<longleftrightarrow> (\<exists>ns. undersized_then_text L tr 1024 ns msg
                         \<and> tr' = tr @ map GetLastStatus (1024 # ns)))"
    if ne: "status \<noteq> status_value DWSTAT_OK"
  proof (intro conjI allI)
    fix tr'
    show "check_lib_status L status tr \<noteq> Some (Inr (), tr')"
      using ne by (auto simp: check_lib_status_def split: option.splits sum.splits)
  next
    fix s m tr'
    show "check_lib_status L status tr = Some (Inl (RuntimeError s m), tr') \<longrightarrow> s = status"
      using ne last_status_loop_returns[of L 1024 tr]
      by (auto simp: check_lib_status_def split: option.splits sum.splits)
  next
    fix msg tr'
    show "check_lib_status L status tr = Some (Inl (RuntimeError status msg), tr')
              \<longleftrightarrow> (\<exists>ns. undersized_then_text L tr 1024 ns msg
                         \<and> tr' = tr @ map GetLastStatus (1024 # ns))"
    proof
      assume "check_lib_status L status tr = Some (Inl (RuntimeError status msg), tr')"
      then have "last_status_loop L 1024 tr = Some (Inr msg, tr')"
        using ne last_status_loop_returns[of L 1024 tr]
        by (auto simp: check_lib_status_def split: option.splits sum.splits)
      from last_status_loop_returns[OF this]
      show "\<exists>ns. undersized_then_text L tr 1024 ns msg \<and> tr' = tr @ map GetLastStatus (1024 # ns)"
        by auto
    next
      assume "\<exists>ns. undersized_then_text L tr 1024 ns msg
                \<and> tr' = tr @ map GetLastStatus (1024 # ns)"
      then obtain ns where "undersized_then_text L tr 1024 ns msg"
        "tr' = tr @ map GetLastStatus (1024 # ns)" by blast
      then show "check_lib_status L status tr = Some (Inl (RuntimeError status msg), tr')"
        using ne last_status_loop_run[of L tr 1024 ns msg] by (simp add: check_lib_status_def)
    qed
  qed
  from ok rest show ?thesis by blast
qed

theorem check_lib_status_translates_witness:
  "check_lib_status long_text_dll (status_value DWSTAT_OK) [] = Some (Inr (), [])
   \<and> check_lib_status long_text_dll (status_value DWSTAT_ERROR_FILE_CANNOT_OPEN) []
       = Some (Inl (RuntimeError 2 ''file not found''), [GetLastStatus 1024, GetLastStatus 2048])"
proof -
  have run: "undersized_then_text long_text_dll [] 1024 [2048] ''file not found''"
    by (simp add: long_text_dll_def quiet_dll_def)
  have ne: "status_value DWSTAT_ERROR_FILE_CANNOT_OPEN \<noteq> status_value DWSTAT_OK" by simp
  from check_lib_status_translates[of long_text_dll "[]"
         "status_value DWSTAT_ERROR_FILE_CANNOT_OPEN"] ne
  have "check_lib_status long_text_dll (status_value DWSTAT_OK) [] = Some (Inr (), [])"
    and "\<forall>msg tr'. check_lib_status long_text_dll (status_value DWSTAT_ERROR_FILE_CANNOT_OPEN) []
            = Some (Inl (RuntimeError (status_value DWSTAT_ERROR_FILE_CANNOT_OPEN) msg), tr')
          \<longleftrightarrow> (\<exists>ns. undersized_then_text long_text_dll [] 1024 ns msg
                     \<and> tr' = [] @ map GetLastStatus (1024 # ns))"
    by blast+
  moreover have "\<exists>ns. undersized_then_text long_text_dll [] 1024 ns ''file not found''
                     \<and> [GetLastStatus 1024, GetLastStatus 2048] = [] @ map GetLastStatus (1024 # ns)"
    using run by (intro exI[of _ "[2048]"]) simp
  ultimately show ?thesis by simp
qed

section \<open>Properties of the timestamp de-duplication\<close>

lemma first_index_first:
  "v \<in> set ts \<Longrightarrow>
   first_index ts v < length ts \<and> ts ! first_index ts v = v
   \<and> (\<forall>j < first_index ts v. ts ! j \<noteq> v)"
proof (induction ts)
  case Nil
  then show ?case by simp
next
  case (Cons x xs)
  show ?case
  proof (cases "x = v")
    case True
    then show ?thesis by simp
  next
    case False
    with Cons have ih: "first_index xs v < length xs \<and> xs ! first_index xs v = v
        \<and> (\<forall>j < first_index xs v. xs ! j \<noteq> v)" by simp
    have "\<forall>j < Suc (first_index xs v). (x # xs) ! j \<noteq> v"
    proof (intro allI impI)
      fix j assume "j < Suc (first_index xs v)"
      then show "(x # xs) ! j \<noteq> v" using False ih by (cases j) auto
    qed
    with False ih show ?thesis by simp
  qed
qed

lemma first_index_nth_distinct:
  "distinct ts \<Longrightarrow> i < length ts \<Longrightarrow> first_index ts (ts ! i) = i"
proof (induction ts arbitrary: i)
  case Nil
  then show ?case by simp
next
  case (Cons x xs)
  then show ?case by (cases i) auto
qed

lemma map_first_index_distinct:
  "distinct ts \<Longrightarrow> map (first_index ts) ts = [0 ..< length ts]"
  by (rule nth_equalityI) (simp_all add: first_index_nth_distinct)

lemma np_unique_values:
  "sorted (fst (np_unique ts)) \<and> distinct (fst (np_unique ts))
   \<and> set (fst (np_unique ts)) = set ts"
  by (simp add: np_unique_def Let_def)

lemma np_unique_increasing:
  "sorted ts \<Longrightarrow> distinct ts \<Longrightarrow> np_unique ts = (ts, [0 ..< length ts])"
proof -
  assume s: "sorted ts" and d: "distinct ts"
  then have "sort (remdups ts) = ts" by (simp add: sorted_sort_id)
  with d show ?thesis by (simp add: np_unique_def Let_def map_first_index_distinct)
qed

text \<open>
  C4, as amended. The de-duplication returns the distinct timestamps \<open>u\<close> in ascending
  order and, for each, the index \<open>ix\<close> of its first occurrence in the input: the sample
  kept for a duplicated timestamp is the first one. Applied to its own output it changes
  nothing, and applied to a sequence that is already strictly ascending (sorted and free
  of duplicates) it returns that sequence, with the indices \<open>0, 1, ...\<close>. Freedom of
  duplicates alone does not keep the order of the input.
\<close>

theorem np_unique_dedup:
  "(let (u, ix) = np_unique ts in
      length ix = length u
      \<and> (\<forall>i < length u. ix ! i < length ts \<and> ts ! (ix ! i) = u ! i
             \<and> (\<forall>j < ix ! i. ts ! j \<noteq> u ! i))
      \<and> sorted u \<and> distinct u \<and> set u = set ts
      \<and> np_unique u = (u, [0 ..< length u]))
   \<and> (sorted ts \<and> distinct ts \<longrightarrow> np_unique ts = (ts, [0 ..< length ts]))"
proof -
  obtain u ix where e: "np_unique ts = (u, ix)" by (cases "np_unique ts") auto
  then have ix: "ix = map (first_index ts) u" and u: "u = sort (remdups ts)"
    by (auto simp: np_unique_def Let_def)
  have vals: "sorted u \<and> distinct u \<and> set u = set ts"
    using np_unique_values[of ts] e by simp
  have first: "\<forall>i < length u. ix ! i < length ts \<and> ts ! (ix ! i) = u ! i
             \<and> (\<forall>j < ix ! i. ts ! j \<noteq> u ! i)"
  proof (intro allI impI)
    fix i assume i: "i < length u"
    then have "u ! i \<in> set ts" using vals nth_mem by blast
    from first_index_first[OF this] i ix
    show "ix ! i < length ts \<and> ts ! (ix ! i) = u ! i \<and> (\<forall>j < ix ! i. ts ! j \<noteq> u ! i)"
      by simp
  qed
  have again: "np_unique u = (u, [0 ..< length u])"
    using vals by (simp add: np_unique_increasing)
  have incr: "sorted ts \<and> distinct ts \<longrightarrow> np_unique ts = (ts, [0 ..< length ts])"
    by (simp add: np_unique_increasing)
  have "length ix = length u" using ix by simp
  with e vals first again incr show ?thesis by simp
qed

theorem np_unique_dedup_witness:
  "np_unique [3, 1, 3, 2] = ([1, 2, 3], [1, 3, 0])
   \<and> np_unique [1, 2, 3] = ([1, 2, 3], [0, 1, 2])"
proof -
  have a: "np_unique [3, 1, 3, 2] = ([1, 2, 3], [1, 3, 0])"
    by (simp add: np_unique_def Let_def)
  have "sorted [1, 2, 3 :: real] \<and> distinct [1, 2, 3 :: real]" by simp
  with np_unique_dedup[of "[1, 2, 3]"]
  have "np_unique [1, 2, 3] = ([1, 2, 3], [0 ..< length [1, 2, 3 :: real]])"
    by blast
  then have "np_unique [1, 2, 3] = ([1, 2, 3], [0, 1, 2])"
    by (simp add: upt_rec)
  with a show ?thesis by simp
qed

text \<open>
  The sequence 2, 1 has no duplicate, and the de-duplication returns 1, 2.
\<close>

theorem np_unique_reorders:
  "distinct [2, 1 :: real] \<and> fst (np_unique [2, 1]) = [1, 2] \<and> fst (np_unique [2, 1]) \<noteq> [2, 1]"
  by (simp add: np_unique_def Let_def)

section \<open>Properties of the session: open, close, lookup\<close>

lemma check_lib_status_raises_at_once:
  assumes "status \<noteq> 0" and "fst (DWGetLastStatus L tr 1024) \<noteq> 5"
  shows "check_lib_status L status tr
           = Some (Inl (RuntimeError status (fst (snd (DWGetLastStatus L tr 1024)))),
                   tr @ [GetLastStatus 1024])"
proof -
  have "undersized_then_text L tr 1024 [] (fst (snd (DWGetLastStatus L tr 1024)))"
    using assms(2) by (cases "DWGetLastStatus L tr 1024") auto
  from check_lib_status_raises[OF assms(1) this] show ?thesis by simp
qed

lemmas open_defs = open_file_def DWFile_init_def DWFile_open_def DWFile_open_try_def
  checked_self_def check_lib_status_ok check_lib_status_raises_at_once as_pointer_def
  overwrite_def DWFile_close_def quiet_dll_def

lemma open_two_channel_file:
  "open_file two_channel_dll ''f.d7d'' [] = Some (Inr (), two_channel_file,
   [CreateReader, OpenDataFile 1 ''f.d7d'', GetMeasurementInfo 1, GetChannelListCount 1,
    GetChannelList 1])"
  by (simp add: open_defs two_channel_dll_def two_channel_file_def
      scalar_channel_def scalar_struct_def DWChannelStruct.extend_def)

subsection \<open>close\<close>

text \<open>
  \<^verbatim>\<open>close\<close> cannot raise (it is a total function of the object and the log), a second
  call changes nothing and calls nothing, and any number of calls on a session whose flag
  \<^verbatim>\<open>closed\<close> is unset and that holds a reader destroys the reader once.
\<close>

lemma DWFile_close_idem:
  "DWFile_close (fst (DWFile_close self tr)) (snd (DWFile_close self tr)) = DWFile_close self tr"
  by (simp add: DWFile_close_def Let_def split: option.splits)

lemma DWFile_close_closed: "file_closed self \<Longrightarrow> DWFile_close self tr = (self, tr)"
  by (simp add: DWFile_close_def)

lemma DWFile_close_open_session:
  "\<not> file_closed self \<Longrightarrow> file_reader_handle self = Some p \<Longrightarrow>
   DWFile_close self tr =
     (self\<lparr>file_reader_handle := None, file_closed := True, file_channels := Some []\<rparr>,
      tr @ [CloseDataFile p, DestroyReader p])"
  by (simp add: DWFile_close_def as_pointer_def)

lemma close_times_Suc: "close_times (Suc n) self tr = DWFile_close self tr"
proof (induction n arbitrary: self tr)
  case 0
  then show ?case by (simp add: case_prod_beta)
next
  case (Suc n)
  have "close_times (Suc (Suc n)) self tr
          = close_times (Suc n) (fst (DWFile_close self tr)) (snd (DWFile_close self tr))"
    by (simp add: case_prod_beta)
  also have "\<dots> = DWFile_close (fst (DWFile_close self tr)) (snd (DWFile_close self tr))"
    by (rule Suc.IH)
  also have "\<dots> = DWFile_close self tr" by (rule DWFile_close_idem)
  finally show ?case .
qed

lemma releases_close_times:
  "releases (snd (close_times (Suc n) self tr))
     = (if \<not> file_closed self \<and> file_reader_handle self \<noteq> None
        then Suc (releases tr) else releases tr)"
  by (simp only: close_times_Suc)
    (auto simp: DWFile_close_def releases_def Let_def split: option.splits)

subsection \<open>open\<close>

text \<open>
  Whatever \<^verbatim>\<open>RuntimeError\<close> the \<^verbatim>\<open>try\<close> block raises, \<^verbatim>\<open>open\<close> calls \<^verbatim>\<open>close\<close> on
  the object as the block left it and raises the same error. When the channel count query
  fails, the flag \<^verbatim>\<open>closed\<close> is already unset and \<^verbatim>\<open>close\<close> closes the data file and
  destroys the reader.
\<close>

lemma DWFile_open_rolls_back:
  assumes "DWFile_open_try L self source tr = Some (Inl (RuntimeError c m), self', tr')"
  shows "DWFile_open L self source tr
           = Some (Inl (RuntimeError c m), fst (DWFile_close self' tr'),
                   snd (DWFile_close self' tr'))"
  using assms by (simp add: DWFile_open_def case_prod_beta)

lemma open_count_failure_closes:
  "open_file count_fails_dll ''f.d7d'' [] =
     Some (Inl (RuntimeError 1 ''error''),
           \<lparr>file_name = [], file_closed = True, file_info = Some zero_info,
            file_channels = Some [], file_reader_handle = None\<rparr>,
           [CreateReader, OpenDataFile 1 ''f.d7d'', GetMeasurementInfo 1, GetChannelListCount 1,
            GetLastStatus 1024, CloseDataFile 1, DestroyReader 1])"
  by (simp add: open_defs count_fails_dll_def)

lemma open_failure_keeps_reader:
  "open_file cannot_open_dll ''f.d7d'' [] =
     Some (Inl (RuntimeError 2 ''cannot open''), file_after_failed_open,
           [CreateReader, OpenDataFile 1 ''f.d7d'', GetLastStatus 1024])"
  by (simp add: open_defs cannot_open_dll_def file_after_failed_open_def)

text \<open>
  C7, at the input where the code departs from it. The library opens the data file and
  then fails the measurement information query. \<^verbatim>\<open>open\<close> raises the error again, but
  the flag \<^verbatim>\<open>closed\<close> is still set from \<^verbatim>\<open>__init__\<close> (it is unset only after that
  query), so the \<^verbatim>\<open>close\<close> of the handler does nothing: the call log ends with the query
  for the status text, the data file is never closed, the reader is never destroyed, and
  the object keeps its reader handle.
\<close>

theorem open_measurement_info_failure_releases_nothing:
  "open_file info_fails_dll ''f.d7d'' [] =
     Some (Inl (RuntimeError 4 ''corrupt''), file_after_failed_open, log_after_failed_open)
   \<and> log_after_failed_open =
       [CreateReader, OpenDataFile 1 ''f.d7d'', GetMeasurementInfo 1, GetLastStatus 1024]
   \<and> file_closes log_after_failed_open = 0
   \<and> releases log_after_failed_open = 0
   \<and> file_closed file_after_failed_open
   \<and> file_reader_handle file_after_failed_open = Some 1"
  by (simp add: open_defs info_fails_dll_def releases_def file_closes_def
      file_after_failed_open_def log_after_failed_open_def)

text \<open>
  C8, at the input where the code departs from it. After the failed \<^verbatim>\<open>open\<close> above,
  which left the data file open and the reader alive, \<^verbatim>\<open>close\<close> called once or twice
  changes nothing and calls nothing: the resource is released not once but never. (On
  every session a second \<^verbatim>\<open>close\<close> is without effect, \<open>DWFile_close_idem\<close>, and a
  session with the flag unset is released once, \<open>releases_close_times\<close>.)
\<close>

theorem close_after_failed_open_never_releases:
  "DWFile_close file_after_failed_open log_after_failed_open
     = (file_after_failed_open, log_after_failed_open)
   \<and> close_times 2 file_after_failed_open log_after_failed_open
     = (file_after_failed_open, log_after_failed_open)
   \<and> releases (snd (close_times 2 file_after_failed_open log_after_failed_open)) = 0
   \<and> file_closes (snd (close_times 2 file_after_failed_open log_after_failed_open)) = 0"
  by (simp add: DWFile_close_def numeral_2_eq_2 releases_def file_closes_def
      file_after_failed_open_def log_after_failed_open_def)

subsection \<open>Lookup\<close>

text \<open>
  An integer key is never looked up, whatever the catalog; a string key is matched
  against the names only, and an absent name gives \<^verbatim>\<open>None\<close>, not \<^verbatim>\<open>KeyError\<close>.
\<close>

lemma DWFile_getitem_KeyInt: "DWFile_getitem self (KeyInt i) = Inl KeyError"
  by (simp add: DWFile_getitem_def)

lemma DWFile_getitem_KeyStr:
  "file_channels self = Some chs \<Longrightarrow>
   DWFile_getitem self (KeyStr s) = Inr (List.find (\<lambda>ch. name ch = s) chs)"
  by (simp add: DWFile_getitem_def py_int_eq_str_def)

text \<open>
  C3, at the inputs where the code departs from it. In the file with the channels
  \<^verbatim>\<open>speed\<close> (index 0) and \<^verbatim>\<open>temp\<close> (index 1), the lookup of the valid index 1 raises
  \<^verbatim>\<open>KeyError\<close> while the lookup of the name \<^verbatim>\<open>temp\<close> returns the channel, and the
  lookups of a name and of a channel that the catalog does not hold return \<^verbatim>\<open>None\<close>
  instead of raising \<^verbatim>\<open>KeyError\<close>.
\<close>

theorem getitem_by_index_and_by_missing_name:
  "DWFile_getitem two_channel_file (KeyInt 1) = Inl KeyError
   \<and> DWFile_getitem two_channel_file (KeyStr ''temp'')
       = Inr (Some (scalar_channel 1 ''temp'' (Some 1)))
   \<and> DWFile_getitem two_channel_file (KeyStr ''pressure'') = Inr None
   \<and> DWFile_getitem two_channel_file (KeyChannel (scalar_channel 7 ''pressure'' (Some 1)))
       = Inr None"
  by (simp add: DWFile_getitem_def two_channel_file_def scalar_channel_def py_int_eq_str_def)

section \<open>Properties of the header\<close>

lemma py_bind_ok: "py_bind (check_lib_status L 0) k tr = k () tr"
  by (simp add: py_bind_def check_lib_status_ok)

lemma startswith_take_200:
  "length p \<le> 200 \<Longrightarrow> startswith (take 200 s) p = startswith s p"
  by (simp add: startswith_def min_def)

lemma placeholder_take_200: "placeholder (take 200 s) = placeholder s"
  by (simp add: placeholder_def startswith_take_200)

lemma header_loop_kept:
  assumes "DWIGetHeaderEntryTextF L tr h (int i) 200 = (0, tx)"
    and "tx \<noteq> []" and "\<not> placeholder tx"
    and "DWIGetHeaderEntryNameF L (tr @ [GetHeaderEntryTextF h (int i) 200]) h (int i) 100 = (0, nm)"
  shows "header_loop L h (i # rest) hdr tr
           = header_loop L h rest (AList.update (take 100 nm) (take 200 tx) hdr)
               (tr @ [GetHeaderEntryTextF h (int i) 200, GetHeaderEntryNameF h (int i) 100])"
proof -
  have "\<not> (startswith (take 200 tx) ''Select...'' \<or> startswith (take 200 tx) ''To fill out'')"
    using assms(3) placeholder_take_200[of tx] by (simp add: placeholder_def)
  with assms show ?thesis by (simp add: py_bind_ok)
qed

lemma header_loop_dropped:
  assumes "DWIGetHeaderEntryTextF L tr h (int i) 200 = (0, tx)"
    and "tx = [] \<or> placeholder tx"
  shows "header_loop L h (i # rest) hdr tr
           = header_loop L h rest hdr (tr @ [GetHeaderEntryTextF h (int i) 200])"
proof -
  have "take 200 tx = [] \<or> startswith (take 200 tx) ''Select...''
          \<or> startswith (take 200 tx) ''To fill out''"
    using assms(2) placeholder_take_200[of tx] by (auto simp: placeholder_def)
  with assms(1) show ?thesis by (auto simp: py_bind_ok)
qed

lemma header_loop_serves:
  assumes "serves_header L h entries"
  shows "k \<le> length entries \<Longrightarrow>
         \<exists>tr'. header_loop L h [k ..< length entries] acc tr
                  = Some (Inr (foldl header_step acc (kept_entries (drop k entries))), tr')"
proof (induction "length entries - k" arbitrary: k acc tr)
  case 0
  then show ?case by (simp add: kept_entries_def)
next
  case (Suc d)
  then have k: "k < length entries" by simp
  obtain nm tx where e: "entries ! k = (nm, tx)" by (cases "entries ! k") auto
  have upt: "[k ..< length entries] = k # [Suc k ..< length entries]"
    using k by (simp add: upt_conv_Cons)
  have drp: "drop k entries = (nm, tx) # drop (Suc k) entries"
    using k e by (simp add: Cons_nth_drop_Suc[symmetric])
  have t: "\<And>tr. DWIGetHeaderEntryTextF L tr h (int k) 200 = (0, tx)"
    and n: "\<And>tr. DWIGetHeaderEntryNameF L tr h (int k) 100 = (0, nm)"
    using assms k e by (auto simp: serves_header_def)
  have d: "d = length entries - Suc k" using Suc(2) by simp
  have k': "Suc k \<le> length entries" using k by simp
  show ?case
  proof (cases "tx \<noteq> [] \<and> \<not> placeholder tx")
    case True
    then have kp: "kept_entries (drop k entries)
        = (take 100 nm, take 200 tx) # kept_entries (drop (Suc k) entries)"
      by (simp add: drp kept_entries_def)
    from True have "header_loop L h [k ..< length entries] acc tr
        = header_loop L h [Suc k ..< length entries]
            (AList.update (take 100 nm) (take 200 tx) acc)
            (tr @ [GetHeaderEntryTextF h (int k) 200, GetHeaderEntryNameF h (int k) 100])"
      unfolding upt using header_loop_kept[where rest="[Suc k ..< length entries]" and hdr=acc and tr=tr,
          OF t _ _ n]
      by blast
    with Suc(1)[OF d k', of "AList.update (take 100 nm) (take 200 tx) acc"
        "tr @ [GetHeaderEntryTextF h (int k) 200, GetHeaderEntryNameF h (int k) 100]"]
    show ?thesis by (simp add: kp header_step_def)
  next
    case False
    then have kp: "kept_entries (drop k entries) = kept_entries (drop (Suc k) entries)"
      by (auto simp: drp kept_entries_def)
    from False have "header_loop L h [k ..< length entries] acc tr
        = header_loop L h [Suc k ..< length entries] acc
            (tr @ [GetHeaderEntryTextF h (int k) 200])"
      unfolding upt using header_loop_dropped[where rest="[Suc k ..< length entries]" and hdr=acc and tr=tr, OF t]
      by blast
    with Suc(1)[OF d k', of acc "tr @ [GetHeaderEntryTextF h (int k) 200]"]
    show ?thesis by (simp add: kp)
  qed
qed

lemma DWFile_header_serves:
  assumes "serves_header L (as_pointer (file_reader_handle self)) entries"
  shows "\<exists>tr'. DWFile_header L self tr
            = Some (Inr (foldl header_step [] (kept_entries entries)), tr')"
proof -
  have c: "\<And>tr. DWIGetHeaderEntryCount L tr (as_pointer (file_reader_handle self))
             = (0, int (length entries))"
    using assms by (simp add: serves_header_def)
  from header_loop_serves[OF assms, of 0 "[]"] show ?thesis
    by (simp add: DWFile_header_def c py_bind_ok header_loop_from_def Let_def)
qed

lemma length_AList_update: "length (AList.update k v al) \<le> Suc (length al)"
  by (induction al) auto

lemma set_AList_update: "set (AList.update k v al) \<subseteq> insert (k, v) (set al)"
  by (induction al) auto

lemma foldl_header_step_length:
  "length (foldl header_step acc es) \<le> length acc + length es"
proof (induction es arbitrary: acc)
  case Nil
  then show ?case by simp
next
  case (Cons e es)
  have "length (header_step acc e) \<le> Suc (length acc)"
    by (simp add: header_step_def length_AList_update)
  with Cons[of "header_step acc e"] show ?case by simp
qed

lemma foldl_header_step_distinct:
  "distinct (map fst acc) \<Longrightarrow> distinct (map fst (foldl header_step acc es))"
  by (induction es arbitrary: acc) (simp_all add: header_step_def distinct_update)

lemma foldl_header_step_map_of:
  "map_of (foldl header_step acc es) = map_of (rev es @ acc)"
proof (induction es arbitrary: acc)
  case Nil
  then show ?case by simp
next
  case (Cons e es)
  have "map_of (foldl header_step acc (e # es)) = map_of (rev es @ header_step acc e)"
    using Cons[of "header_step acc e"] by simp
  also have "\<dots> = map_of (header_step acc e) ++ map_of (rev es)" by simp
  also have "map_of (header_step acc e) = map_of (e # acc)"
    by (cases e) (simp add: header_step_def update_conv')
  also have "map_of (e # acc) ++ map_of (rev es) = map_of (rev (e # es) @ acc)" by simp
  finally show ?case .
qed

lemma foldl_header_step_set:
  "set (foldl header_step acc es) \<subseteq> set acc \<union> set es"
proof (induction es arbitrary: acc)
  case Nil
  then show ?case by simp
next
  case (Cons e es)
  have "set (header_step acc e) \<subseteq> insert e (set acc)"
    using set_AList_update[of "fst e" "snd e" acc] by (simp add: header_step_def)
  with Cons[of "header_step acc e"] show ?case by auto
qed

lemma kept_entries_values:
  "(k, v) \<in> set (kept_entries entries) \<Longrightarrow> v \<noteq> [] \<and> \<not> placeholder v"
  by (auto simp: kept_entries_def placeholder_take_200)

lemma map_of_rev_last:
  "k \<notin> fst ` set post \<Longrightarrow> map_of (rev (pre @ (k, v) # post)) k = Some v"
  by (simp add: map_add_def map_of_eq_None_iff[THEN iffD2] split: option.splits)

lemma kept_entries_append:
  "kept_entries (xs @ ys) = kept_entries xs @ kept_entries ys"
  by (simp add: kept_entries_def)

lemma kept_entries_keys:
  "k \<in> fst ` set (kept_entries es) \<Longrightarrow>
   \<exists>nm tx. (nm, tx) \<in> set es \<and> tx \<noteq> [] \<and> \<not> placeholder tx \<and> k = take 100 nm"
  by (auto simp: kept_entries_def) blast

text \<open>
  C9, as amended. When the library serves the header entries \<open>entries\<close> of an open
  file, \<^verbatim>\<open>header\<close> returns a dictionary \<open>m\<close> with at most as many items as there are
  entries and one item per name; no text in it is empty or starts with \<^verbatim>\<open>Select...\<close> or
  \<^verbatim>\<open>To fill out\<close>; under each name it holds the text of the last entry of that name
  among the entries whose text is neither empty nor a placeholder (names cut to 100
  bytes, texts to 200). So an entry with a non-empty text that is not a placeholder
  appears under its name whenever no later such entry has the same name.
\<close>

theorem header_filters_placeholders:
  assumes "serves_header L (as_pointer (file_reader_handle self)) entries"
  shows "\<exists>m tr'. DWFile_header L self tr = Some (Inr m, tr')
      \<and> length m \<le> length entries
      \<and> distinct (map fst m)
      \<and> (\<forall>(k, v) \<in> set m. v \<noteq> [] \<and> \<not> placeholder v)
      \<and> map_of m = map_of (rev (kept_entries entries))
      \<and> (\<forall>pre nm tx post.
            entries = pre @ (nm, tx) # post \<and> tx \<noteq> [] \<and> \<not> placeholder tx
            \<and> (\<forall>(nm', tx') \<in> set post.
                   tx' \<noteq> [] \<and> \<not> placeholder tx' \<longrightarrow> take 100 nm' \<noteq> take 100 nm)
            \<longrightarrow> map_of m (take 100 nm) = Some (take 200 tx))"
proof -
  define m where "m = foldl header_step [] (kept_entries entries)"
  from DWFile_header_serves[OF assms, of tr] obtain tr'
    where run: "DWFile_header L self tr = Some (Inr m, tr')"
    unfolding m_def by blast
  have len: "length m \<le> length entries"
  proof -
    have "length m \<le> length (kept_entries entries)"
      using foldl_header_step_length[of "[]" "kept_entries entries"] by (simp add: m_def)
    also have "\<dots> \<le> length entries" by (simp add: kept_entries_def)
    finally show ?thesis .
  qed
  have dist: "distinct (map fst m)"
    unfolding m_def by (rule foldl_header_step_distinct) simp
  have vals: "\<forall>(k, v) \<in> set m. v \<noteq> [] \<and> \<not> placeholder v"
    using foldl_header_step_set[of "[]" "kept_entries entries"] kept_entries_values[of _ _ entries]
    by (auto simp: m_def)
  have mo: "map_of m = map_of (rev (kept_entries entries))"
    using foldl_header_step_map_of[of "[]" "kept_entries entries"] by (simp add: m_def)
  have last: "map_of m (take 100 nm) = Some (take 200 tx)"
    if e: "entries = pre @ (nm, tx) # post" and k: "tx \<noteq> []" "\<not> placeholder tx"
      and later: "\<forall>(nm', tx') \<in> set post.
                   tx' \<noteq> [] \<and> \<not> placeholder tx' \<longrightarrow> take 100 nm' \<noteq> take 100 nm"
    for pre nm tx post
  proof -
    have dec: "kept_entries entries
        = kept_entries pre @ (take 100 nm, take 200 tx) # kept_entries post"
      using k by (simp add: e kept_entries_def)
    have "take 100 nm \<notin> fst ` set (kept_entries post)"
      using later kept_entries_keys[of "take 100 nm" post] by fastforce
    from map_of_rev_last[OF this] show ?thesis by (simp only: mo dec)
  qed
  from run len dist vals mo last show ?thesis by blast
qed

lemma serves_header_example: "serves_header header_dll 1 header_entries_example"
  by (simp add: serves_header_def header_dll_def header_entries_example_def quiet_dll_def
      less_Suc_eq eval_nat_numeral)

theorem header_filters_placeholders_witness:
  "serves_header header_dll (as_pointer (file_reader_handle two_channel_file)) header_entries_example
   \<and> (\<exists>m tr'. DWFile_header header_dll two_channel_file [] = Some (Inr m, tr')
         \<and> length m \<le> 4 \<and> map_of m ''Site'' = Some ''Wien'' \<and> map_of m ''Type'' = None)"
proof -
  have s: "serves_header header_dll (as_pointer (file_reader_handle two_channel_file))
             header_entries_example"
    using serves_header_example by (simp add: two_channel_file_def as_pointer_def)
  have k: "kept_entries header_entries_example = [(''Site'', ''Graz''), (''Site'', ''Wien'')]"
    by (simp add: kept_entries_def header_entries_example_def placeholder_def startswith_def)
  from header_filters_placeholders[OF s, of "[]"] obtain m tr' where
    "DWFile_header header_dll two_channel_file [] = Some (Inr m, tr')"
    "length m \<le> length header_entries_example"
    "map_of m = map_of (rev (kept_entries header_entries_example))"
    by blast
  moreover have "length header_entries_example = 4" by (simp add: header_entries_example_def)
  ultimately have "DWFile_header header_dll two_channel_file [] = Some (Inr m, tr')
         \<and> length m \<le> 4 \<and> map_of m ''Site'' = Some ''Wien'' \<and> map_of m ''Type'' = None"
    by (simp add: k)
  with s show ?thesis by blast
qed

text \<open>
  Of the four entries of the example, the first has an empty text, which no placeholder
  prefix matches, and is not in the dictionary; the second has the text \<^verbatim>\<open>Graz\<close>, and
  the dictionary holds the text of the third under their common name.
\<close>

theorem header_drops_empty_text_and_earlier_duplicate:
  "DWFile_header header_dll two_channel_file [] =
     Some (Inr [(''Site'', ''Wien'')],
           [GetHeaderEntryCount 1,
            GetHeaderEntryTextF 1 0 200,
            GetHeaderEntryTextF 1 1 200, GetHeaderEntryNameF 1 1 100,
            GetHeaderEntryTextF 1 2 200, GetHeaderEntryNameF 1 2 100,
            GetHeaderEntryTextF 1 3 200])
   \<and> header_entries_example ! 0 = (''Operator'', []) \<and> \<not> placeholder []
   \<and> map_of [(''Site'', ''Wien'')] ''Operator'' = None
   \<and> header_entries_example ! 1 = (''Site'', ''Graz'') \<and> \<not> placeholder ''Graz''
   \<and> map_of [(''Site'', ''Wien'')] ''Site'' \<noteq> Some ''Graz''"
  by (simp add: DWFile_header_def header_loop_from_def py_bind_ok header_dll_def quiet_dll_def
      header_entries_example_def two_channel_file_def as_pointer_def placeholder_def
      startswith_def upt_rec)

section \<open>Properties of the calls on a closed session\<close>

text \<open>
  No method of \<^verbatim>\<open>DWChannel\<close> looks at the flag \<^verbatim>\<open>closed\<close> of the file: a channel
  holds the reader handle it was built with and passes it on. What a call after
  \<^verbatim>\<open>close\<close> does is what the library answers for a destroyed reader.
\<close>

lemma rejected_call:
  assumes "rejects_released L msg"
  shows "check_lib_status L 11 tr = Some (Inl (RuntimeError 11 msg), tr @ [GetLastStatus 1024])"
proof -
  from assms have "fst (DWGetLastStatus L tr 1024) \<noteq> 5"
    and "fst (snd (DWGetLastStatus L tr 1024)) = msg"
    by (simp_all add: rejects_released_def)
  with check_lib_status_raises_at_once[of 11 L tr] show ?thesis by simp
qed

lemma rejects_releasedD:
  assumes "rejects_released L msg" and "released tr h"
  shows "fst (DWIGetScaledSamplesCount L tr h i) = 11"
    and "fst (DWIGetReducedValuesCount L tr h i) = 11"
    and "fst (DWIGetChannelProps_int L tr h i p) = 11"
    and "fst (DWIGetChannelProps_double L tr h i p) = 11"
    and "fst (DWIGetArrayInfoCount L tr h i) = 11"
  using assms by (simp_all add: rejects_released_def)

lemma py_bind_raise:
  "m tr = Some (Inl e, tr') \<Longrightarrow> py_bind m k tr = Some (Inl e, tr')"
  by (simp add: py_bind_def)

lemma number_of_samples_rejected:
  assumes r: "rejects_released L msg" and d: "released tr h" and h: "reader_handle self = Some h"
  shows "DWChannel_number_of_samples L self tr
           = Some (Inl (RuntimeError 11 msg),
                   tr @ [GetScaledSamplesCount h (index self), GetLastStatus 1024])"
proof -
  obtain c where "DWIGetScaledSamplesCount L tr h (index self) = (11, c)"
    using rejects_releasedD[OF r d] by (metis prod.collapse)
  then show ?thesis
    using rejected_call[OF r, of "tr @ [GetScaledSamplesCount h (index self)]"]
    by (simp add: DWChannel_number_of_samples_def h as_pointer_def py_bind_raise)
qed

lemma chan_prop_int_rejected:
  assumes r: "rejects_released L msg" and d: "released tr h" and h: "reader_handle self = Some h"
  shows "DWChannel_chan_prop_int L self p tr
           = Some (Inl (RuntimeError 11 msg),
                   tr @ [GetChannelProps h (index self) (prop_value p) 4, GetLastStatus 1024])"
proof -
  obtain c where "DWIGetChannelProps_int L tr h (index self) (prop_value p) = (11, c)"
    using rejects_releasedD[OF r d] by (metis prod.collapse)
  then show ?thesis
    using rejected_call[OF r, of "tr @ [GetChannelProps h (index self) (prop_value p) 4]"]
    by (simp add: DWChannel_chan_prop_int_def h as_pointer_def py_bind_raise)
qed

lemma chan_prop_double_rejected:
  assumes r: "rejects_released L msg" and d: "released tr h" and h: "reader_handle self = Some h"
  shows "DWChannel_chan_prop_double L self p tr
           = Some (Inl (RuntimeError 11 msg),
                   tr @ [GetChannelProps h (index self) (prop_value p) 8, GetLastStatus 1024])"
proof -
  obtain c where "DWIGetChannelProps_double L tr h (index self) (prop_value p) = (11, c)"
    using rejects_releasedD[OF r d] by (metis prod.collapse)
  then show ?thesis
    using rejected_call[OF r, of "tr @ [GetChannelProps h (index self) (prop_value p) 8]"]
    by (simp add: DWChannel_chan_prop_double_def h as_pointer_def py_bind_raise)
qed

lemma chan_prop_str_rejected:
  assumes r: "rejects_released L msg" and d: "released tr h" and h: "reader_handle self = Some h"
  shows "DWChannel_chan_prop_str L self p pl tr
           = Some (Inl (RuntimeError 11 msg),
                   tr @ [GetChannelProps h (index self) (prop_value pl) 4, GetLastStatus 1024])"
  using chan_prop_int_rejected[OF r d h, of pl]
  by (simp add: DWChannel_chan_prop_str_def py_bind_raise)

lemma reduced_rejected:
  assumes r: "rejects_released L msg" and d: "released tr h" and h: "reader_handle self = Some h"
  shows "DWChannel_reduced L self tr
           = Some (Inl (RuntimeError 11 msg),
                   tr @ [GetReducedValuesCount h (index self), GetLastStatus 1024])"
proof -
  obtain c b where "DWIGetReducedValuesCount L tr h (index self) = (11, c, b)"
    using rejects_releasedD[OF r d] by (metis prod.collapse)
  then show ?thesis
    using rejected_call[OF r, of "tr @ [GetReducedValuesCount h (index self)]"]
    by (simp add: DWChannel_reduced_def h as_pointer_def py_bind_raise)
qed

lemma array_info_rejected:
  assumes r: "rejects_released L msg" and d: "released tr h" and h: "reader_handle self = Some h"
    and a: "2 \<le> array_size self"
  shows "DWChannel_array_info L self tr
           = Some (Inl (RuntimeError 11 msg),
                   tr @ [GetArrayInfoCount h (index self), GetLastStatus 1024])"
proof -
  obtain c where "DWIGetArrayInfoCount L tr h (index self) = (11, c)"
    using rejects_releasedD[OF r d] by (metis prod.collapse)
  then show ?thesis
    using rejected_call[OF r, of "tr @ [GetArrayInfoCount h (index self)]"] a
    by (simp add: DWChannel_array_info_def h as_pointer_def py_bind_raise)
qed

lemma scaled_rejected:
  assumes r: "rejects_released L msg" and d: "released tr h" and h: "reader_handle self = Some h"
    and a: "0 \<le> array_index" "array_index < array_size self"
  shows "DWChannel_scaled L self array_index tr
           = Some (Inl (RuntimeError 11 msg),
                   tr @ [GetScaledSamplesCount h (index self), GetLastStatus 1024])"
  using number_of_samples_rejected[OF r d h] a
  by (simp add: DWChannel_scaled_def py_bind_raise)

lemma series_generator_rejected:
  assumes r: "rejects_released L msg" and d: "released tr h" and h: "reader_handle self = Some h"
  shows "DWChannel_series_generator L self chunk_size array_index tr
           = Some (([], Some (RuntimeError 11 msg)),
                   tr @ [GetScaledSamplesCount h (index self), GetLastStatus 1024])"
  using number_of_samples_rejected[OF r d h]
  by (simp add: DWChannel_series_generator_def)

lemma scaled_out_of_range:
  "\<not> (0 \<le> array_index \<and> array_index < array_size self) \<Longrightarrow>
   DWChannel_scaled L self array_index tr = Some (Inl IndexError, tr)"
  by (simp add: DWChannel_scaled_def)

lemma array_info_scalar:
  "array_size self < 2 \<Longrightarrow> DWChannel_array_info L self tr = Some (Inr [], tr)"
  by (simp add: DWChannel_array_info_def)

lemma close_releases:
  "\<not> file_closed self \<Longrightarrow> file_reader_handle self = Some h \<Longrightarrow>
   released (snd (DWFile_close self tr)) h"
  by (simp add: DWFile_close_def released_def)

lemma strict_dll_rejects: "rejects_released strict_dll ''invalid reader''"
  by (simp add: rejects_released_def strict_dll_def two_channel_dll_def quiet_dll_def)

lemma open_strict:
  "open_file strict_dll ''f.d7d'' [] = Some (Inr (), two_channel_file,
   [CreateReader, OpenDataFile 1 ''f.d7d'', GetMeasurementInfo 1, GetChannelListCount 1,
    GetChannelList 1])"
  by (simp add: open_defs strict_dll_def two_channel_dll_def two_channel_file_def
      scalar_channel_def scalar_struct_def DWChannelStruct.extend_def)

lemma close_two_channel_file:
  "snd (DWFile_close two_channel_file
     [CreateReader, OpenDataFile 1 ''f.d7d'', GetMeasurementInfo 1, GetChannelListCount 1,
      GetChannelList 1]) = log_after_close"
  by (simp add: DWFile_close_def two_channel_file_def log_after_close_def as_pointer_def)

lemma released_append: "released tr h \<Longrightarrow> released (tr @ later) h"
  by (simp add: released_def)

text \<open>
  C2, as amended. Let the library reject a destroyed reader with
  \<^verbatim>\<open>DWSTAT_ERROR_INVALID_READER\<close> and hand out its status text \<open>msg\<close>. After
  \<^verbatim>\<open>close\<close> on an open session, and after any further calls, every call on a channel
  of the session that reaches the library raises \<^verbatim>\<open>RuntimeError\<close> with the status 11
  and \<open>msg\<close>: \<^verbatim>\<open>number_of_samples\<close>, \<^verbatim>\<open>scaled\<close> with an array index in range,
  \<^verbatim>\<open>series_generator\<close>, \<^verbatim>\<open>reduced\<close>, the three property fetches, and
  \<^verbatim>\<open>array_info\<close> of a channel with \<^verbatim>\<open>array_size\<close> at least 2. The calls that do not
  reach the library do what they do on an open session: \<^verbatim>\<open>scaled\<close> with an array index
  out of range raises \<^verbatim>\<open>IndexError\<close>, and \<^verbatim>\<open>array_info\<close> of a channel with
  \<^verbatim>\<open>array_size\<close> below 2 returns the empty list.
\<close>

theorem calls_after_close_fail_as_the_library_answers:
  assumes r: "rejects_released L msg"
    and o: "\<not> file_closed f" and fh: "file_reader_handle f = Some h"
    and h: "reader_handle self = Some h"
    and tr': "tr' = snd (DWFile_close f tr) @ later"
  shows "DWChannel_number_of_samples L self tr'
           = Some (Inl (RuntimeError 11 msg),
                   tr' @ [GetScaledSamplesCount h (index self), GetLastStatus 1024])
      \<and> DWChannel_scaled L self array_index tr'
           = (if 0 \<le> array_index \<and> array_index < array_size self
              then Some (Inl (RuntimeError 11 msg),
                         tr' @ [GetScaledSamplesCount h (index self), GetLastStatus 1024])
              else Some (Inl IndexError, tr'))
      \<and> DWChannel_series_generator L self chunk_size array_index tr'
           = Some (([], Some (RuntimeError 11 msg)),
                   tr' @ [GetScaledSamplesCount h (index self), GetLastStatus 1024])
      \<and> DWChannel_reduced L self tr'
           = Some (Inl (RuntimeError 11 msg),
                   tr' @ [GetReducedValuesCount h (index self), GetLastStatus 1024])
      \<and> DWChannel_chan_prop_int L self p tr'
           = Some (Inl (RuntimeError 11 msg),
                   tr' @ [GetChannelProps h (index self) (prop_value p) 4, GetLastStatus 1024])
      \<and> DWChannel_chan_prop_double L self p tr'
           = Some (Inl (RuntimeError 11 msg),
                   tr' @ [GetChannelProps h (index self) (prop_value p) 8, GetLastStatus 1024])
      \<and> DWChannel_chan_prop_str L self p p_len tr'
           = Some (Inl (RuntimeError 11 msg),
                   tr' @ [GetChannelProps h (index self) (prop_value p_len) 4, GetLastStatus 1024])
      \<and> DWChannel_array_info L self tr'
           = (if array_size self < 2 then Some (Inr [], tr')
              else Some (Inl (RuntimeError 11 msg),
                         tr' @ [GetArrayInfoCount h (index self), GetLastStatus 1024]))"
proof -
  have d: "released tr' h"
    unfolding tr' using close_releases[OF o fh] by (rule released_append)
  note number_of_samples_rejected[OF r d h]
    series_generator_rejected[OF r d h] reduced_rejected[OF r d h]
    chan_prop_int_rejected[OF r d h] chan_prop_double_rejected[OF r d h]
    chan_prop_str_rejected[OF r d h]
  moreover have "DWChannel_scaled L self array_index tr'
           = (if 0 \<le> array_index \<and> array_index < array_size self
              then Some (Inl (RuntimeError 11 msg),
                         tr' @ [GetScaledSamplesCount h (index self), GetLastStatus 1024])
              else Some (Inl IndexError, tr'))"
    using scaled_rejected[OF r d h] scaled_out_of_range by simp
  moreover have "DWChannel_array_info L self tr'
           = (if array_size self < 2 then Some (Inr [], tr')
              else Some (Inl (RuntimeError 11 msg),
                         tr' @ [GetArrayInfoCount h (index self), GetLastStatus 1024]))"
    using array_info_rejected[OF r d h] array_info_scalar by simp
  ultimately show ?thesis by simp
qed

theorem calls_after_close_fail_as_the_library_answers_witness:
  "DWChannel_number_of_samples strict_dll (scalar_channel 0 ''speed'' (Some 1)) log_after_close
     = Some (Inl (RuntimeError 11 ''invalid reader''),
             log_after_close @ [GetScaledSamplesCount 1 0, GetLastStatus 1024])
   \<and> DWChannel_scaled strict_dll (scalar_channel 0 ''speed'' (Some 1)) 0 log_after_close
     = Some (Inl (RuntimeError 11 ''invalid reader''),
             log_after_close @ [GetScaledSamplesCount 1 0, GetLastStatus 1024])"
proof -
  have a: "\<not> file_closed two_channel_file" "file_reader_handle two_channel_file = Some 1"
    by (simp_all add: two_channel_file_def)
  have b: "reader_handle (scalar_channel 0 ''speed'' (Some 1)) = Some 1"
    "index (scalar_channel 0 ''speed'' (Some 1)) = 0"
    "array_size (scalar_channel 0 ''speed'' (Some 1)) = 1"
    by (simp_all add: scalar_channel_def)
  have c: "log_after_close = snd (DWFile_close two_channel_file
     [CreateReader, OpenDataFile 1 ''f.d7d'', GetMeasurementInfo 1, GetChannelListCount 1,
      GetChannelList 1]) @ []"
    using close_two_channel_file by simp
  from calls_after_close_fail_as_the_library_answers[OF strict_dll_rejects a b(1) c, of 0]
  show ?thesis by (simp add: scalar_channel_def)
qed

text \<open>
  After the two-channel file is opened and closed, with a library that rejects the
  destroyed reader, \<^verbatim>\<open>array_info\<close> of the channel \<^verbatim>\<open>speed\<close> returns the empty list and
  \<^verbatim>\<open>scaled\<close> with the array index 5 raises \<^verbatim>\<open>IndexError\<close>; and with a library that
  answers \<^verbatim>\<open>DWSTAT_OK\<close> whatever the reader, \<^verbatim>\<open>number_of_samples\<close> returns a count.
\<close>

theorem calls_after_close_that_do_not_fail:
  "open_file strict_dll ''f.d7d'' [] =
     Some (Inr (), two_channel_file,
           [CreateReader, OpenDataFile 1 ''f.d7d'', GetMeasurementInfo 1, GetChannelListCount 1,
            GetChannelList 1])
   \<and> file_channels two_channel_file
       = Some [scalar_channel 0 ''speed'' (Some 1), scalar_channel 1 ''temp'' (Some 1)]
   \<and> snd (DWFile_close two_channel_file
            [CreateReader, OpenDataFile 1 ''f.d7d'', GetMeasurementInfo 1, GetChannelListCount 1,
             GetChannelList 1]) = log_after_close
   \<and> DWChannel_array_info strict_dll (scalar_channel 0 ''speed'' (Some 1)) log_after_close
       = Some (Inr [], log_after_close)
   \<and> DWChannel_scaled strict_dll (scalar_channel 0 ''speed'' (Some 1)) 5 log_after_close
       = Some (Inl IndexError, log_after_close)
   \<and> DWChannel_number_of_samples two_channel_dll (scalar_channel 0 ''speed'' (Some 1))
        log_after_close
       = Some (Inr 0, log_after_close @ [GetScaledSamplesCount 1 0])"
proof -
  have "DWChannel_number_of_samples two_channel_dll (scalar_channel 0 ''speed'' (Some 1))
        log_after_close
       = Some (Inr 0, log_after_close @ [GetScaledSamplesCount 1 0])"
    by (simp add: DWChannel_number_of_samples_def two_channel_dll_def quiet_dll_def
        scalar_channel_def as_pointer_def py_bind_ok py_return_def)
  moreover have "DWChannel_array_info strict_dll (scalar_channel 0 ''speed'' (Some 1))
        log_after_close = Some (Inr [], log_after_close)"
    by (simp add: DWChannel_array_info_def scalar_channel_def)
  moreover have "DWChannel_scaled strict_dll (scalar_channel 0 ''speed'' (Some 1)) 5
        log_after_close = Some (Inl IndexError, log_after_close)"
    by (simp add: DWChannel_scaled_def scalar_channel_def)
  ultimately show ?thesis
    using open_strict close_two_channel_file by (simp add: two_channel_file_def)
qed

section \<open>Properties of the sample access\<close>

lemma number_of_samples_ok:
  assumes "DWIGetScaledSamplesCount L tr (as_pointer (reader_handle self)) (index self) = (0, c)"
  shows "DWChannel_number_of_samples L self tr
           = Some (Inr c, tr @ [GetScaledSamplesCount (as_pointer (reader_handle self)) (index self)])"
  using assms by (simp add: DWChannel_number_of_samples_def py_bind_ok py_return_def)

lemma sample_dll_count:
  "DWIGetScaledSamplesCount (sample_dll asz ts ds) tr h i = (0, int (length ts))"
  by (simp add: sample_dll_def quiet_dll_def)

lemma sample_dll_fetch:
  "DWIGetScaledSamples (sample_dll asz ts ds) tr h i off n
     = (0, take (nat n * asz) (drop (nat off * asz) ds), take (nat n) (drop (nat off) ts))"
  by (simp add: sample_dll_def quiet_dll_def)

lemma scaled_example:
  "DWChannel_scaled (sample_dll 1 [0, 0, 1, 2] [10, 20, 30, 40])
      (scalar_channel 0 ''speed'' (Some 1)) 0 []
     = Some (Inr ([0, 0, 1, 2], [10, 20, 30, 40]),
             [GetScaledSamplesCount 1 0, GetScaledSamplesCount 1 0, GetScaledSamples 1 0 0 4])"
  by (simp add: DWChannel_scaled_def py_bind_def number_of_samples_ok sample_dll_count
      sample_dll_fetch scalar_channel_def as_pointer_def check_lib_status_ok py_return_def
      zeros_def overwrite_def)

lemma chunk_starts_4_2: "chunk_starts 4 2 = [0, 2]"
  by (simp add: chunk_starts_def upt_rec)

lemma chunk_starts_5_2: "chunk_starts 5 2 = [0, 2, 4]"
  by (simp add: chunk_starts_def upt_rec)

lemma np_unique_00: "np_unique [0, 0] = ([0], [0])"
  by (simp add: np_unique_def)

lemma np_unique_1: "np_unique [1] = ([1], [0])"
  by (simp add: np_unique_def)

lemmas gen_defs = DWChannel_series_generator_def number_of_samples_ok sample_dll_count
  sample_dll_fetch scalar_channel_def as_pointer_def check_lib_status_ok
  zeros_def overwrite_def select_column_def Let_def

text \<open>
  C1, at the input where the code departs from it. A scalar channel holds the four
  samples (0, 10), (0, 20), (1, 30), (2, 40), and the chunk size is 2. The generator asks
  for the windows [0, 2) and [2, 4). The first chunk, de-duplicated, is the sample
  (0, 10); the statement that de-duplicates it rebinds \<^verbatim>\<open>time\<close> to the array of the one
  distinct timestamp, so the second fetch writes its two timestamps into an array of one
  cell, and the second chunk is the sample (1, 30) alone. The sample (2, 40), whose
  timestamp occurs once, is in no chunk, while the bulk call returns all four samples.
\<close>

theorem series_generator_loses_sample_after_duplicate:
  "DWChannel_series_generator (sample_dll 1 [0, 0, 1, 2] [10, 20, 30, 40])
      (scalar_channel 0 ''speed'' (Some 1)) 2 0 []
     = Some (([\<lparr>series_data = [10], series_index = [0], series_name = ''speed''\<rparr>,
               \<lparr>series_data = [30], series_index = [1], series_name = ''speed''\<rparr>], None),
             [GetScaledSamplesCount 1 0, GetScaledSamples 1 0 0 2, GetScaledSamples 1 0 2 2])
   \<and> DWChannel_scaled (sample_dll 1 [0, 0, 1, 2] [10, 20, 30, 40])
      (scalar_channel 0 ''speed'' (Some 1)) 0 []
     = Some (Inr ([0, 0, 1, 2], [10, 20, 30, 40]),
             [GetScaledSamplesCount 1 0, GetScaledSamplesCount 1 0, GetScaledSamples 1 0 0 4])"
proof -
  have "DWChannel_series_generator (sample_dll 1 [0, 0, 1, 2] [10, 20, 30, 40])
      (scalar_channel 0 ''speed'' (Some 1)) 2 0 []
     = Some (([\<lparr>series_data = [10], series_index = [0], series_name = ''speed''\<rparr>,
               \<lparr>series_data = [30], series_index = [1], series_name = ''speed''\<rparr>], None),
             [GetScaledSamplesCount 1 0, GetScaledSamples 1 0 0 2, GetScaledSamples 1 0 2 2])"
    by (simp add: gen_defs chunk_starts_4_2 np_unique_00 np_unique_1)
  with scaled_example show ?thesis by simp
qed

section \<open>Properties of the axis names\<close>

text \<open>
  The \<^verbatim>\<open>name\<close> property reports the stored name of every axis, the placeholder
  included: its comparison of a \<^verbatim>\<open>bytes\<close> object with a \<^verbatim>\<open>str\<close> is never true.
  \<^verbatim>\<open>columns\<close> does not look at the stored name. When the document has a
  \<^verbatim>\<open>StringValues\<close> element with a text, the column names are the channel name, an
  underscore, and each field of the text after the first; when the document has no such
  element, \<^verbatim>\<open>find\<close> returns \<^verbatim>\<open>None\<close> and reading its \<^verbatim>\<open>text\<close> raises
  \<^verbatim>\<open>AttributeError\<close>.
\<close>

lemma columns_from_labels:
  assumes "DWChannel_channel_xml L (axis_channel self) tr = Some (Inr doc, tr')"
    and "fromstring doc = Some r" and "find_StringValues r = Some el" and "xml_text el = Some s"
  shows "DWArrayInfo_columns L fromstring self tr
           = Some (Inr (map (\<lambda>c. name (axis_channel self) @ ''_'' @ c)
                          (tl (split_on CHR '';'' s))), tr')"
  using assms by (simp add: DWArrayInfo_columns_def py_bind_def)

lemma columns_missing_element:
  assumes "DWChannel_channel_xml L (axis_channel self) tr = Some (Inr doc, tr')"
    and "fromstring doc = Some r" and "find_StringValues r = None"
  shows "DWArrayInfo_columns L fromstring self tr = Some (Inl AttributeError, tr')"
  using assms by (simp add: DWArrayInfo_columns_def py_bind_def)

lemma columns_empty_element:
  assumes "DWChannel_channel_xml L (axis_channel self) tr = Some (Inr doc, tr')"
    and "fromstring doc = Some r" and "find_StringValues r = Some el" and "xml_text el = None"
  shows "DWArrayInfo_columns L fromstring self tr
           = columns_fallback L self (nat (axis_size self)) tr'"
  using assms by (simp add: DWArrayInfo_columns_def py_bind_def)

lemma DWArrayInfo_name_stored: "DWArrayInfo_name self = Inr (axis_raw_name self)"
  by (simp add: DWArrayInfo_name_def py_bytes_eq_str_def)

lemma channel_xml_axis_dll:
  "DWChannel_channel_xml (axis_dll doc) array_channel tr
     = Some (Inr doc, tr @ [GetChannelProps 1 2 8 4, GetChannelProps 1 2 7 (int (length doc))])"
  by (simp add: DWChannel_channel_xml_def DWChannel_chan_prop_str_def DWChannel_chan_prop_int_def
      py_bind_def check_lib_status_ok py_return_def axis_dll_def quiet_dll_def array_channel_def
      as_pointer_def)

lemma docs_differ:
  "doc_empty_values \<noteq> doc_without_values" "doc_with_values \<noteq> doc_without_values"
  "doc_with_values \<noteq> doc_empty_values"
  by (simp_all add: doc_empty_values_def doc_without_values_def doc_with_values_def)

lemma split_example: "split_on CHR '';'' ''3;X;Y;Z'' = [''3'', ''X'', ''Y'', ''Z'']"
  by simp

lemma sentinel_axis_fields:
  "axis_channel sentinel_axis = array_channel" "axis_size sentinel_axis = 3"
  "axis_index sentinel_axis = 0" "axis_raw_name sentinel_axis = ''_''"
  "name array_channel = ''acc''" "array_size array_channel = 3"
  "index array_channel = 2" "reader_handle array_channel = Some 1"
  by (simp_all add: sentinel_axis_def array_channel_def)

lemma array_info_axis_dll:
  "DWChannel_array_info (axis_dll doc) array_channel tr
     = Some (Inr [sentinel_axis], tr @ [GetArrayInfoCount 1 2, GetArrayInfoList 1 2])"
  by (simp add: DWChannel_array_info_def sentinel_axis_fields py_bind_def check_lib_status_ok
      py_return_def axis_dll_def quiet_dll_def as_pointer_def overwrite_def
      sentinel_axis_struct_def sentinel_axis_def DWArrayInfoStruct.extend_def)

text \<open>
  C5, at the input where the code departs from it. The channel \<^verbatim>\<open>acc\<close> has an axis
  whose stored name is the placeholder \<^verbatim>\<open>_\<close>, and its metadata document has no
  \<^verbatim>\<open>StringValues\<close> element, hence no explicit labels. \<^verbatim>\<open>columns\<close> does not fall back
  to the repeated axis name: it raises \<^verbatim>\<open>AttributeError\<close> after fetching the document.
  (With an empty \<^verbatim>\<open>StringValues\<close> element it does fall back, and with the labels
  \<^verbatim>\<open>3;X;Y;Z\<close> it names the columns \<^verbatim>\<open>acc_X\<close>, \<^verbatim>\<open>acc_Y\<close>, \<^verbatim>\<open>acc_Z\<close>: the two lemmas
  after the theorem.)
\<close>

theorem columns_without_StringValues_raise:
  "DWArrayInfo_columns (axis_dll doc_without_values) example_fromstring sentinel_axis []
     = Some (Inl AttributeError,
             [GetChannelProps 1 2 8 4, GetChannelProps 1 2 7 (int (length doc_without_values))])
   \<and> example_fromstring doc_without_values
       = Some (Element ''Channel'' None [Element ''ArrayInfo'' None
               [Element ''Axis'' None [Element ''Name'' (Some ''_'') []]]])
   \<and> axis_raw_name sentinel_axis = ''_''
   \<and> DWArrayInfo_name sentinel_axis = Inr ''_''"
  by (simp add: DWArrayInfo_columns_def py_bind_def channel_xml_axis_dll sentinel_axis_fields
      example_fromstring_def find_StringValues_def child_elems_def DWArrayInfo_name_stored)

lemma columns_with_values:
  "DWArrayInfo_columns (axis_dll doc_with_values) example_fromstring sentinel_axis []
     = Some (Inr [''acc_X'', ''acc_Y'', ''acc_Z''],
             [GetChannelProps 1 2 8 4, GetChannelProps 1 2 7 (int (length doc_with_values))])"
  by (simp add: DWArrayInfo_columns_def py_bind_def channel_xml_axis_dll sentinel_axis_fields
      example_fromstring_def docs_differ find_StringValues_def child_elems_def)

lemma columns_fallback_axis_dll:
  "columns_fallback (axis_dll doc) sentinel_axis 3 tr
     = Some (Inr [''_'', ''_'', ''_''],
             tr @ [GetArrayInfoCount 1 2, GetArrayInfoList 1 2, GetArrayInfoCount 1 2,
                   GetArrayInfoList 1 2, GetArrayInfoCount 1 2, GetArrayInfoList 1 2])"
  by (simp add: numeral_3_eq_3 py_bind_def array_info_axis_dll sentinel_axis_fields py_index_def
      DWArrayInfo_name_stored py_return_def)

lemma columns_with_empty_values:
  "DWArrayInfo_columns (axis_dll doc_empty_values) example_fromstring sentinel_axis []
     = Some (Inr [''_'', ''_'', ''_''],
             [GetChannelProps 1 2 8 4, GetChannelProps 1 2 7 (int (length doc_empty_values)),
              GetArrayInfoCount 1 2, GetArrayInfoList 1 2, GetArrayInfoCount 1 2,
              GetArrayInfoList 1 2, GetArrayInfoCount 1 2, GetArrayInfoList 1 2])"
  by (simp add: DWArrayInfo_columns_def py_bind_def channel_xml_axis_dll sentinel_axis_fields
      example_fromstring_def docs_differ find_StringValues_def child_elems_def
      columns_fallback_axis_dll)

end
